theory Spec2Isabelle
  imports Main "HOL-Library.Word"
begin

section \<open>The ledger runtime\<close>

text \<open>
  The four contracts are Solidity \<^verbatim>\<open>^0.8.19\<close>. What the language and the ledger
  give every function is written out once here:
  \<^item> an \<^verbatim>\<open>address\<close> and a \<^verbatim>\<open>bytes32\<close> are only compared with each other and with
    zero, so both are natural numbers (\<^verbatim>\<open>address(0)\<close> is \<open>0\<close>);
  \<^item> a \<^verbatim>\<open>uint256\<close> is a natural number; \<open>+\<close>, \<open>-\<close>, \<open>*\<close> and \<open>/\<close> are the checked
    operations of Solidity 0.8, which abort the transaction with \<^verbatim>\<open>Panic(0x11)\<close>
    (overflow, underflow) or \<^verbatim>\<open>Panic(0x12)\<close> (division by zero);
  \<^item> a \<^verbatim>\<open>uint8\<close> is an \<open>8 word\<close>;
  \<^item> a \<^verbatim>\<open>mapping\<close> is a total function (an absent key reads as the zero value);
  \<^item> a \<^verbatim>\<open>require\<close> that fails, a \<^verbatim>\<open>revert\<close> and a panic abort the transaction: the
    function returns \<open>Inl\<close> of the error and no state, and the ledger stays as it was
    (\<open>Revert\<close> with the message, \<open>Panic\<close> with the code, \<open>MissingRole\<close> for the
    \<^verbatim>\<open>onlyRole\<close> modifier, \<open>CallReverted k\<close> when the \<open>k\<close>-th outside call reverts);
  \<^item> a function that is not \<^verbatim>\<open>payable\<close> aborts, before its modifiers and its body run,
    when the call carries ether (\<open>NotPayable\<close>); of the functions modelled here the
    payable ones are \<^verbatim>\<open>submitCreditRequest\<close>, \<^verbatim>\<open>submitBatchRequest\<close> and
    \<^verbatim>\<open>submitModelUpdate\<close>;
  \<^item> \<^verbatim>\<open>msg.sender\<close>, \<^verbatim>\<open>msg.value\<close> and \<^verbatim>\<open>block.timestamp\<close> come with the call, as
    does the outcome of every call to a contract that is not part of the repository
    (\<open>call_returns k\<close>: the \<open>k\<close>-th such call of the transaction returns rather than
    reverts; such a contract is taken not to call back);
  \<^item> an emitted event is an entry appended to the contract's \<open>log\<close>, and so is a call
    to an outside contract.
\<close>

type_synonym address = nat
type_synonym bytes32 = nat
type_synonym uint256 = nat

definition MAX_UINT256 :: nat where
  "MAX_UINT256 = 2 ^ 256 - 1"

datatype role =
    DEFAULT_ADMIN_ROLE | ORACLE_ROLE | LENDER_ROLE | APPROVED_LENDER_ROLE
  | SELLER_ROLE | VERIFIER_ROLE | VALIDATOR_ROLE | AGGREGATOR_ROLE
  | OTHER_ROLE bytes32

datatype error =
    Revert string
  | Panic nat
  | MissingRole address role
  | CallReverted nat
  | NotPayable

definition checked_add :: "uint256 \<Rightarrow> uint256 \<Rightarrow> error + uint256" where
  "checked_add a b = (if a + b \<le> MAX_UINT256 then Inr (a + b) else Inl (Panic 17))"

definition checked_sub :: "uint256 \<Rightarrow> uint256 \<Rightarrow> error + uint256" where
  "checked_sub a b = (if b \<le> a then Inr (a - b) else Inl (Panic 17))"

definition checked_mul :: "uint256 \<Rightarrow> uint256 \<Rightarrow> error + uint256" where
  "checked_mul a b = (if a * b \<le> MAX_UINT256 then Inr (a * b) else Inl (Panic 17))"

definition checked_div :: "uint256 \<Rightarrow> uint256 \<Rightarrow> error + uint256" where
  "checked_div a b = (if b = 0 then Inl (Panic 18) else Inr (a div b))"

text \<open>\<^verbatim>\<open>uint8 * uint8\<close>: the product is a \<^verbatim>\<open>uint8\<close> too, and is checked against 255.\<close>

definition checked_mul8 :: "8 word \<Rightarrow> 8 word \<Rightarrow> error + 8 word" where
  "checked_mul8 a b = (if unat a * unat b \<le> 255 then Inr (a * b) else Inl (Panic 17))"

record env =
  msg_sender :: address
  msg_value :: uint256
  block_timestamp :: uint256
  call_returns :: "nat \<Rightarrow> bool"

text \<open>The ledger after a transaction: the new state if it returned, the old one if it aborted.\<close>

definition ledger_after :: "'s \<Rightarrow> error + 's \<Rightarrow> 's" where
  "ledger_after s r = (case r of Inl e \<Rightarrow> s | Inr s' \<Rightarrow> s')"

definition days30 :: uint256 where
  "days30 = 30 * 86400"


section \<open>CreditScoreRegistry\<close>

record CreditScore =
  cs_score :: uint256
  cs_lastUpdated :: uint256
  cs_version :: uint256
  cs_isActive :: bool
  cs_updatedBy :: address

record ScoreFactors =
  sf_paymentHistory :: "8 word"
  sf_creditUtilization :: "8 word"
  sf_creditLength :: "8 word"
  sf_creditMix :: "8 word"
  sf_newCredit :: "8 word"

record DataConsent =
  dc_dataHash :: bytes32
  dc_timestamp :: uint256
  dc_isActive :: bool
  dc_expiryTime :: uint256
  dc_authorizedLenders :: "address list"

datatype registry_event =
    ScoreUpdated address uint256 uint256 address
  | ConsentUpdated address bytes32 uint256
  | LenderAccessGranted address address
  | LenderAccessRevoked address address
  | ScoreFactorsUpdated address "8 word" "8 word" "8 word" "8 word" "8 word"

record registry =
  scores :: "address \<Rightarrow> CreditScore"
  scoreFactors :: "address \<Rightarrow> ScoreFactors"
  consents :: "address \<Rightarrow> DataConsent"
  lenderAccess :: "address \<Rightarrow> address \<Rightarrow> bool"
  userNonces :: "address \<Rightarrow> uint256"
  reg_roles :: "role \<Rightarrow> address \<Rightarrow> bool"
  reg_paused :: bool
  reg_log :: "registry_event list"

text \<open>The constructor: every mapping empty, the deployer admin and oracle.\<close>

definition registry_init :: "address \<Rightarrow> registry" where
  "registry_init deployer =
     \<lparr> scores = (\<lambda>_. \<lparr>cs_score = 0, cs_lastUpdated = 0, cs_version = 0,
                        cs_isActive = False, cs_updatedBy = 0\<rparr>),
       scoreFactors = (\<lambda>_. \<lparr>sf_paymentHistory = 0, sf_creditUtilization = 0,
                        sf_creditLength = 0, sf_creditMix = 0, sf_newCredit = 0\<rparr>),
       consents = (\<lambda>_. \<lparr>dc_dataHash = 0, dc_timestamp = 0, dc_isActive = False,
                        dc_expiryTime = 0, dc_authorizedLenders = []\<rparr>),
       lenderAccess = (\<lambda>_ _. False),
       userNonces = (\<lambda>_. 0),
       reg_roles = (\<lambda>r a. (r = DEFAULT_ADMIN_ROLE \<or> r = ORACLE_ROLE) \<and> a = deployer),
       reg_paused = False,
       reg_log = [] \<rparr>"

text \<open>
  \<^verbatim>\<open>updateScore\<close>, with its modifiers in the order they are written:
  \<^verbatim>\<open>onlyRole(ORACLE_ROLE) whenNotPaused nonReentrant\<close>. The function calls no other
  contract, so the reentrancy guard is never found set and is not modelled.
\<close>

definition updateScore :: "env \<Rightarrow> registry \<Rightarrow> address \<Rightarrow> uint256 \<Rightarrow> error + registry" where
  "updateScore e s user score =
     (if msg_value e \<noteq> 0 then Inl NotPayable
      else if \<not> reg_roles s ORACLE_ROLE (msg_sender e) then Inl (MissingRole (msg_sender e) ORACLE_ROLE)
      else if reg_paused s then Inl (Revert ''Pausable: paused'')
      else if user = 0 then Inl (Revert ''Invalid user address'')
      else if \<not> (score \<ge> 300 \<and> score \<le> 850) then Inl (Revert ''Score must be between 300-850'')
      else case checked_add (cs_version (scores s user)) 1 of
        Inl err \<Rightarrow> Inl err
      | Inr v \<Rightarrow>
          Inr (s\<lparr> scores := (scores s)(user := (scores s user)
                      \<lparr> cs_score := score, cs_lastUpdated := block_timestamp e,
                        cs_version := v, cs_isActive := True, cs_updatedBy := msg_sender e \<rparr>),
                  reg_log := reg_log s @ [ScoreUpdated user score v (msg_sender e)] \<rparr>))"

definition updateScoreFactors ::
  "env \<Rightarrow> registry \<Rightarrow> address \<Rightarrow> 8 word \<Rightarrow> 8 word \<Rightarrow> 8 word \<Rightarrow> 8 word \<Rightarrow> 8 word \<Rightarrow> error + registry" where
  "updateScoreFactors e s user paymentHistory creditUtilization creditLength creditMix newCredit =
     (if msg_value e \<noteq> 0 then Inl NotPayable
      else if \<not> reg_roles s ORACLE_ROLE (msg_sender e) then Inl (MissingRole (msg_sender e) ORACLE_ROLE)
      else if reg_paused s then Inl (Revert ''Pausable: paused'')
      else if user = 0 then Inl (Revert ''Invalid user address'')
      else if \<not> (paymentHistory \<le> 100 \<and> creditUtilization \<le> 100 \<and> creditLength \<le> 100
                 \<and> creditMix \<le> 100 \<and> newCredit \<le> 100)
        then Inl (Revert ''All factors must be 0-100'')
      else Inr (s\<lparr> scoreFactors := (scoreFactors s)(user :=
                      \<lparr> sf_paymentHistory = paymentHistory, sf_creditUtilization = creditUtilization,
                        sf_creditLength = creditLength, sf_creditMix = creditMix,
                        sf_newCredit = newCredit \<rparr>),
                   reg_log := reg_log s @ [ScoreFactorsUpdated user paymentHistory creditUtilization
                                             creditLength creditMix newCredit] \<rparr>))"

text \<open>\<^verbatim>\<open>getScore\<close> is a view: it returns the score or aborts, and changes nothing.\<close>

definition getScore :: "address \<Rightarrow> registry \<Rightarrow> address \<Rightarrow> error + uint256" where
  "getScore caller s user =
     (if user = 0 then Inl (Revert ''Invalid user address'')
      else if \<not> (caller = user \<or> reg_roles s LENDER_ROLE caller \<or> lenderAccess s user caller)
        then Inl (Revert ''Unauthorized access'')
      else if \<not> cs_isActive (scores s user) then Inl (Revert ''No active score found'')
      else Inr (cs_score (scores s user)))"

definition updateConsent :: "env \<Rightarrow> registry \<Rightarrow> bytes32 \<Rightarrow> uint256 \<Rightarrow> error + registry" where
  "updateConsent e s dataHash expiryTime =
     (if msg_value e \<noteq> 0 then Inl NotPayable
      else if reg_paused s then Inl (Revert ''Pausable: paused'')
      else if dataHash = 0 then Inl (Revert ''Invalid data hash'')
      else if \<not> expiryTime > block_timestamp e then Inl (Revert ''Expiry must be in future'')
      else case checked_add (userNonces s (msg_sender e)) 1 of
        Inl err \<Rightarrow> Inl err
      | Inr n \<Rightarrow>
          Inr (s\<lparr> consents := (consents s)(msg_sender e := (consents s (msg_sender e))
                      \<lparr> dc_dataHash := dataHash, dc_timestamp := block_timestamp e,
                        dc_isActive := True, dc_expiryTime := expiryTime \<rparr>),
                  userNonces := (userNonces s)(msg_sender e := n),
                  reg_log := reg_log s @ [ConsentUpdated (msg_sender e) dataHash expiryTime] \<rparr>))"

definition grantLenderAccess :: "env \<Rightarrow> registry \<Rightarrow> address \<Rightarrow> error + registry" where
  "grantLenderAccess e s lender =
     (if msg_value e \<noteq> 0 then Inl NotPayable
      else if reg_paused s then Inl (Revert ''Pausable: paused'')
      else if lender = 0 then Inl (Revert ''Invalid lender address'')
      else if lenderAccess s (msg_sender e) lender then Inl (Revert ''Access already granted'')
      else Inr (s\<lparr> lenderAccess := (lenderAccess s)(msg_sender e :=
                      (lenderAccess s (msg_sender e))(lender := True)),
                   consents := (consents s)(msg_sender e := (consents s (msg_sender e))
                      \<lparr> dc_authorizedLenders :=
                          dc_authorizedLenders (consents s (msg_sender e)) @ [lender] \<rparr>),
                   reg_log := reg_log s @ [LenderAccessGranted (msg_sender e) lender] \<rparr>))"

text \<open>
  The removal loop of \<^verbatim>\<open>revokeLenderAccess\<close>, from index \<open>i\<close>: the first entry equal to
  \<open>lender\<close> is overwritten with the last entry, the array is popped, and the loop breaks.
\<close>

function remove_lender :: "nat \<Rightarrow> address list \<Rightarrow> address \<Rightarrow> address list" where
  "remove_lender i authorizedLenders lender =
     (if i < length authorizedLenders then
        (if authorizedLenders ! i = lender
         then butlast (authorizedLenders[i := authorizedLenders ! (length authorizedLenders - 1)])
         else remove_lender (i + 1) authorizedLenders lender)
      else authorizedLenders)"
  by pat_completeness auto
termination
  by (relation "measure (\<lambda>(i, xs, l). length xs - i)") auto

declare remove_lender.simps [simp del]

definition revokeLenderAccess :: "env \<Rightarrow> registry \<Rightarrow> address \<Rightarrow> error + registry" where
  "revokeLenderAccess e s lender =
     (if msg_value e \<noteq> 0 then Inl NotPayable
      else if reg_paused s then Inl (Revert ''Pausable: paused'')
      else if lender = 0 then Inl (Revert ''Invalid lender address'')
      else if \<not> lenderAccess s (msg_sender e) lender then Inl (Revert ''Access not granted'')
      else Inr (s\<lparr> lenderAccess := (lenderAccess s)(msg_sender e :=
                      (lenderAccess s (msg_sender e))(lender := False)),
                   consents := (consents s)(msg_sender e := (consents s (msg_sender e))
                      \<lparr> dc_authorizedLenders :=
                          remove_lender 0 (dc_authorizedLenders (consents s (msg_sender e))) lender \<rparr>),
                   reg_log := reg_log s @ [LenderAccessRevoked (msg_sender e) lender] \<rparr>))"

text \<open>
  The loop of \<^verbatim>\<open>batchUpdateScores\<close> over the two arrays, already known to have the same
  length: each entry is checked and then written, and a failing check aborts the whole
  transaction.
\<close>

fun batch_loop :: "env \<Rightarrow> registry \<Rightarrow> (address \<times> uint256) list \<Rightarrow> error + registry" where
  "batch_loop e s [] = Inr s"
| "batch_loop e s ((user, newScore) # rest) =
     (if user = 0 then Inl (Revert ''Invalid user address'')
      else if \<not> (newScore \<ge> 300 \<and> newScore \<le> 850) then Inl (Revert ''Invalid score'')
      else case checked_add (cs_version (scores s user)) 1 of
        Inl err \<Rightarrow> Inl err
      | Inr v \<Rightarrow>
          batch_loop e
            (s\<lparr> scores := (scores s)(user := (scores s user)
                    \<lparr> cs_score := newScore, cs_lastUpdated := block_timestamp e,
                      cs_version := v, cs_isActive := True, cs_updatedBy := msg_sender e \<rparr>),
                reg_log := reg_log s @ [ScoreUpdated user newScore v (msg_sender e)] \<rparr>)
            rest)"

definition batchUpdateScores ::
  "env \<Rightarrow> registry \<Rightarrow> address list \<Rightarrow> uint256 list \<Rightarrow> error + registry" where
  "batchUpdateScores e s users newScores =
     (if msg_value e \<noteq> 0 then Inl NotPayable
      else if \<not> reg_roles s ORACLE_ROLE (msg_sender e) then Inl (MissingRole (msg_sender e) ORACLE_ROLE)
      else if reg_paused s then Inl (Revert ''Pausable: paused'')
      else if length users \<noteq> length newScores then Inl (Revert ''Array length mismatch'')
      else if \<not> length users \<le> 100 then Inl (Revert ''Batch size too large'')
      else batch_loop e s (zip users newScores))"

text \<open>
  The admin functions. \<^verbatim>\<open>_pause\<close>, \<^verbatim>\<open>_unpause\<close> and \<^verbatim>\<open>_grantRole\<close> are the base
  contracts' (OpenZeppelin \<^verbatim>\<open>Pausable\<close> and \<^verbatim>\<open>AccessControl\<close>): pausing requires the
  contract not paused, unpausing requires it paused, granting sets the role's flag.
  \<^verbatim>\<open>grantRole\<close>, \<^verbatim>\<open>revokeRole\<close> and \<^verbatim>\<open>renounceRole\<close> are the public functions every
  contract inherits from \<^verbatim>\<open>AccessControl\<close>; no role's admin is ever changed, so the
  admin of every role is \<^verbatim>\<open>DEFAULT_ADMIN_ROLE\<close>.
\<close>

definition pause :: "env \<Rightarrow> registry \<Rightarrow> error + registry" where
  "pause e s =
     (if msg_value e \<noteq> 0 then Inl NotPayable
      else if \<not> reg_roles s DEFAULT_ADMIN_ROLE (msg_sender e)
        then Inl (MissingRole (msg_sender e) DEFAULT_ADMIN_ROLE)
      else if reg_paused s then Inl (Revert ''Pausable: paused'')
      else Inr (s\<lparr> reg_paused := True \<rparr>))"

definition unpause :: "env \<Rightarrow> registry \<Rightarrow> error + registry" where
  "unpause e s =
     (if msg_value e \<noteq> 0 then Inl NotPayable
      else if \<not> reg_roles s DEFAULT_ADMIN_ROLE (msg_sender e)
        then Inl (MissingRole (msg_sender e) DEFAULT_ADMIN_ROLE)
      else if \<not> reg_paused s then Inl (Revert ''Pausable: not paused'')
      else Inr (s\<lparr> reg_paused := False \<rparr>))"

definition set_role :: "(role \<Rightarrow> address \<Rightarrow> bool) \<Rightarrow> role \<Rightarrow> address \<Rightarrow> bool \<Rightarrow> (role \<Rightarrow> address \<Rightarrow> bool)" where
  "set_role rs r a b = rs(r := (rs r)(a := b))"

definition grantOracleRole :: "env \<Rightarrow> registry \<Rightarrow> address \<Rightarrow> error + registry" where
  "grantOracleRole e s oracle =
     (if msg_value e \<noteq> 0 then Inl NotPayable
      else if \<not> reg_roles s DEFAULT_ADMIN_ROLE (msg_sender e)
        then Inl (MissingRole (msg_sender e) DEFAULT_ADMIN_ROLE)
      else Inr (s\<lparr> reg_roles := set_role (reg_roles s) ORACLE_ROLE oracle True \<rparr>))"

definition grantLenderRole :: "env \<Rightarrow> registry \<Rightarrow> address \<Rightarrow> error + registry" where
  "grantLenderRole e s lender =
     (if msg_value e \<noteq> 0 then Inl NotPayable
      else if \<not> reg_roles s DEFAULT_ADMIN_ROLE (msg_sender e)
        then Inl (MissingRole (msg_sender e) DEFAULT_ADMIN_ROLE)
      else Inr (s\<lparr> reg_roles := set_role (reg_roles s) LENDER_ROLE lender True \<rparr>))"

definition reg_grantRole :: "env \<Rightarrow> registry \<Rightarrow> role \<Rightarrow> address \<Rightarrow> error + registry" where
  "reg_grantRole e s r account =
     (if msg_value e \<noteq> 0 then Inl NotPayable
      else if \<not> reg_roles s DEFAULT_ADMIN_ROLE (msg_sender e)
        then Inl (MissingRole (msg_sender e) DEFAULT_ADMIN_ROLE)
      else Inr (s\<lparr> reg_roles := set_role (reg_roles s) r account True \<rparr>))"

definition reg_revokeRole :: "env \<Rightarrow> registry \<Rightarrow> role \<Rightarrow> address \<Rightarrow> error + registry" where
  "reg_revokeRole e s r account =
     (if msg_value e \<noteq> 0 then Inl NotPayable
      else if \<not> reg_roles s DEFAULT_ADMIN_ROLE (msg_sender e)
        then Inl (MissingRole (msg_sender e) DEFAULT_ADMIN_ROLE)
      else Inr (s\<lparr> reg_roles := set_role (reg_roles s) r account False \<rparr>))"

definition reg_renounceRole :: "env \<Rightarrow> registry \<Rightarrow> role \<Rightarrow> address \<Rightarrow> error + registry" where
  "reg_renounceRole e s r account =
     (if msg_value e \<noteq> 0 then Inl NotPayable
      else if account \<noteq> msg_sender e then Inl (Revert ''AccessControl: can only renounce roles for self'')
      else Inr (s\<lparr> reg_roles := set_role (reg_roles s) r account False \<rparr>))"

text \<open>Every state-changing entry point of the registry, and a transaction that calls one.\<close>

datatype registry_call =
    UpdateScore address uint256
  | UpdateScoreFactors address "8 word" "8 word" "8 word" "8 word" "8 word"
  | UpdateConsent bytes32 uint256
  | GrantLenderAccess address
  | RevokeLenderAccess address
  | BatchUpdateScores "address list" "uint256 list"
  | Pause
  | Unpause
  | GrantOracleRole address
  | GrantLenderRole address
  | GrantRole role address
  | RevokeRole role address
  | RenounceRole role address

fun registry_exec :: "env \<Rightarrow> registry \<Rightarrow> registry_call \<Rightarrow> error + registry" where
  "registry_exec e s (UpdateScore u v) = updateScore e s u v"
| "registry_exec e s (UpdateScoreFactors u a b c d f) = updateScoreFactors e s u a b c d f"
| "registry_exec e s (UpdateConsent h t) = updateConsent e s h t"
| "registry_exec e s (GrantLenderAccess l) = grantLenderAccess e s l"
| "registry_exec e s (RevokeLenderAccess l) = revokeLenderAccess e s l"
| "registry_exec e s (BatchUpdateScores us vs) = batchUpdateScores e s us vs"
| "registry_exec e s Pause = pause e s"
| "registry_exec e s Unpause = unpause e s"
| "registry_exec e s (GrantOracleRole a) = grantOracleRole e s a"
| "registry_exec e s (GrantLenderRole a) = grantLenderRole e s a"
| "registry_exec e s (GrantRole r a) = reg_grantRole e s r a"
| "registry_exec e s (RevokeRole r a) = reg_revokeRole e s r a"
| "registry_exec e s (RenounceRole r a) = reg_renounceRole e s r a"

text \<open>
  The consistency of the two records of a lender grant: the user's list of authorized
  lenders holds exactly the lenders whose access flag is set, each once.
\<close>

definition lenders_consistent :: "registry \<Rightarrow> bool" where
  "lenders_consistent s =
     (\<forall>user. distinct (dc_authorizedLenders (consents s user))
           \<and> (\<forall>lender. (lender \<in> set (dc_authorizedLenders (consents s user)))
                         = lenderAccess s user lender))"


section \<open>LenderPortal\<close>

record LenderInfo =
  li_lenderAddress :: address
  li_companyName :: string
  li_licenseNumber :: string
  li_isApproved :: bool
  li_isActive :: bool
  li_registrationDate :: uint256
  li_totalRequests :: uint256
  li_successfulRequests :: uint256
  li_supportedRegions :: "string list"
  li_creditLimit :: uint256
  li_interestRate :: uint256

record CreditRequest =
  cr_requestId :: uint256
  cr_lender :: address
  cr_borrower :: address
  cr_requestedAmount :: uint256
  cr_timestamp :: uint256
  cr_isProcessed :: bool
  cr_isApproved :: bool
  cr_creditScore :: uint256
  cr_riskAssessment :: string
  cr_approvedAmount :: uint256
  cr_interestRate :: uint256

record APIAccess =
  aa_lender :: address
  aa_hasAccess :: bool
  aa_requestLimit :: uint256
  aa_requestsUsed :: uint256
  aa_resetTime :: uint256
  aa_accessLevel :: string

record BatchRequest =
  br_batchId :: uint256
  br_lender :: address
  br_borrowers :: "address list"
  br_requestedAmounts :: "uint256 list"
  br_timestamp :: uint256
  br_isProcessed :: bool
  br_processedCount :: uint256

datatype portal_event =
    LenderRegistered address string
  | LenderApproved address
  | CreditRequestSubmitted uint256 address address uint256
  | CreditRequestProcessed uint256 bool uint256
  | APIAccessGranted address string
  | BatchRequestSubmitted uint256 address uint256

record portal =
  lenders :: "address \<Rightarrow> LenderInfo"
  creditRequests :: "uint256 \<Rightarrow> CreditRequest"
  apiAccess :: "address \<Rightarrow> APIAccess"
  batchRequests :: "uint256 \<Rightarrow> BatchRequest"
  lenderRequests :: "address \<Rightarrow> uint256 list"
  pendingApprovals :: "address \<Rightarrow> bool"
  nextRequestId :: uint256
  nextBatchId :: uint256
  registrationFee :: uint256
  apiRequestFee :: uint256
  lp_roles :: "role \<Rightarrow> address \<Rightarrow> bool"
  lp_balance :: uint256
  lp_log :: "portal_event list"

definition ether :: uint256 where
  "ether = 10 ^ 18"

text \<open>The constructor and the initial values of the state variables.\<close>

definition portal_init :: "address \<Rightarrow> portal" where
  "portal_init deployer =
     \<lparr> lenders = (\<lambda>_. \<lparr> li_lenderAddress = 0, li_companyName = [], li_licenseNumber = [],
                         li_isApproved = False, li_isActive = False, li_registrationDate = 0,
                         li_totalRequests = 0, li_successfulRequests = 0,
                         li_supportedRegions = [], li_creditLimit = 0, li_interestRate = 0 \<rparr>),
       creditRequests = (\<lambda>_. \<lparr> cr_requestId = 0, cr_lender = 0, cr_borrower = 0,
                         cr_requestedAmount = 0, cr_timestamp = 0, cr_isProcessed = False,
                         cr_isApproved = False, cr_creditScore = 0, cr_riskAssessment = [],
                         cr_approvedAmount = 0, cr_interestRate = 0 \<rparr>),
       apiAccess = (\<lambda>_. \<lparr> aa_lender = 0, aa_hasAccess = False, aa_requestLimit = 0,
                         aa_requestsUsed = 0, aa_resetTime = 0, aa_accessLevel = [] \<rparr>),
       batchRequests = (\<lambda>_. \<lparr> br_batchId = 0, br_lender = 0, br_borrowers = [],
                         br_requestedAmounts = [], br_timestamp = 0, br_isProcessed = False,
                         br_processedCount = 0 \<rparr>),
       lenderRequests = (\<lambda>_. []),
       pendingApprovals = (\<lambda>_. False),
       nextRequestId = 1,
       nextBatchId = 1,
       registrationFee = ether,
       apiRequestFee = ether div 100,
       lp_roles = (\<lambda>r a. r = DEFAULT_ADMIN_ROLE \<and> a = deployer),
       lp_balance = 0,
       lp_log = [] \<rparr>"

text \<open>
  \<^verbatim>\<open>requestAPIAccess\<close>: the tier name selects the request limit; the strings are
  compared through their hashes, that is, for equality.
\<close>

definition requestAPIAccess :: "env \<Rightarrow> portal \<Rightarrow> string \<Rightarrow> error + portal" where
  "requestAPIAccess e s accessLevel =
     (if msg_value e \<noteq> 0 then Inl NotPayable
      else if \<not> lp_roles s APPROVED_LENDER_ROLE (msg_sender e)
        then Inl (MissingRole (msg_sender e) APPROVED_LENDER_ROLE)
      else if \<not> li_isApproved (lenders s (msg_sender e)) then Inl (Revert ''Lender not approved'')
      else case (if accessLevel = ''basic'' then Inr 100
                 else if accessLevel = ''premium'' then Inr 1000
                 else if accessLevel = ''enterprise'' then Inr 10000
                 else Inl (Revert ''Invalid access level'')) of
        Inl err \<Rightarrow> Inl err
      | Inr requestLimit \<Rightarrow>
          (case checked_add (block_timestamp e) days30 of
             Inl err \<Rightarrow> Inl err
           | Inr reset \<Rightarrow>
               Inr (s\<lparr> apiAccess := (apiAccess s)(msg_sender e :=
                           \<lparr> aa_lender = msg_sender e, aa_hasAccess = True,
                             aa_requestLimit = requestLimit, aa_requestsUsed = 0,
                             aa_resetTime = reset, aa_accessLevel = accessLevel \<rparr>),
                        lp_log := lp_log s @ [APIAccessGranted (msg_sender e) accessLevel] \<rparr>)))"

text \<open>
  \<^verbatim>\<open>_processCreditRequest\<close>. The portal calls \<^verbatim>\<open>creditRegistry.getScore\<close> as itself
  (\<open>self\<close> is the portal's own address, the registry's \<^verbatim>\<open>msg.sender\<close>) inside
  \<^verbatim>\<open>try\<close>: a revert of that call selects the \<^verbatim>\<open>catch\<close> branch, while a panic in
  the body of the \<^verbatim>\<open>try\<close> (the checked additions) aborts the transaction.
\<close>

definition decide :: "uint256 \<Rightarrow> CreditRequest \<Rightarrow> uint256 \<Rightarrow> error + CreditRequest" where
  "decide score request baseRate =
     (if score \<ge> 700 then
        Inr (request\<lparr> cr_creditScore := score, cr_isApproved := True,
                      cr_approvedAmount := cr_requestedAmount request,
                      cr_interestRate := baseRate,
                      cr_riskAssessment := ''Low Risk'' \<rparr>)
      else if score \<ge> 650 then
        (case checked_add baseRate 200 of
           Inl err \<Rightarrow> Inl err
         | Inr rate \<Rightarrow>
             Inr (request\<lparr> cr_creditScore := score, cr_isApproved := True,
                           cr_approvedAmount := cr_requestedAmount request div 2,
                           cr_interestRate := rate,
                           cr_riskAssessment := ''Medium Risk'' \<rparr>))
      else
        Inr (request\<lparr> cr_creditScore := score, cr_isApproved := False,
                      cr_approvedAmount := 0,
                      cr_riskAssessment := ''High Risk'' \<rparr>))"

definition processCreditRequest :: "registry \<Rightarrow> address \<Rightarrow> portal \<Rightarrow> uint256 \<Rightarrow> error + portal" where
  "processCreditRequest reg self s requestId =
     (let request = creditRequests s requestId;
          lender = lenders s (cr_lender request) in
      if cr_isProcessed request then Inl (Revert ''Already processed'')
      else case
        (case getScore self reg (cr_borrower request) of
           Inr score \<Rightarrow>
             (case decide score request (li_interestRate lender) of
                Inl err \<Rightarrow> Inl err
              | Inr decided \<Rightarrow>
                  if cr_isApproved decided then
                    (case checked_add (li_successfulRequests lender) 1 of
                       Inl err \<Rightarrow> Inl err
                     | Inr n \<Rightarrow> Inr (decided, lender\<lparr> li_successfulRequests := n \<rparr>))
                  else Inr (decided, lender))
         | Inl lookup_failure \<Rightarrow>
             Inr (request\<lparr> cr_creditScore := 0, cr_isApproved := False,
                           cr_riskAssessment := ''No Credit History'' \<rparr>, lender)) of
        Inl err \<Rightarrow> Inl err
      | Inr (decided, lender') \<Rightarrow>
          Inr (s\<lparr> creditRequests := (creditRequests s)(requestId :=
                      decided\<lparr> cr_isProcessed := True \<rparr>),
                   lenders := (lenders s)(cr_lender request := lender'),
                   lp_log := lp_log s @ [CreditRequestProcessed requestId (cr_isApproved decided)
                                           (cr_approvedAmount decided)] \<rparr>))"

text \<open>The request record both entry points create before decisioning.\<close>

definition new_request :: "uint256 \<Rightarrow> address \<Rightarrow> address \<Rightarrow> uint256 \<Rightarrow> uint256 \<Rightarrow> CreditRequest" where
  "new_request requestId lender borrower requestedAmount now =
     \<lparr> cr_requestId = requestId, cr_lender = lender, cr_borrower = borrower,
       cr_requestedAmount = requestedAmount, cr_timestamp = now, cr_isProcessed = False,
       cr_isApproved = False, cr_creditScore = 0, cr_riskAssessment = [],
       cr_approvedAmount = 0, cr_interestRate = 0 \<rparr>"

text \<open>
  \<^verbatim>\<open>submitCreditRequest\<close>. The limit is checked on the stored counter first; the
  reset of an expired window comes after that check.
\<close>

definition submitCreditRequest ::
  "registry \<Rightarrow> address \<Rightarrow> env \<Rightarrow> portal \<Rightarrow> address \<Rightarrow> uint256 \<Rightarrow> error + portal \<times> uint256" where
  "submitCreditRequest reg self e s borrower requestedAmount =
     (let access = apiAccess s (msg_sender e) in
      if \<not> lp_roles s APPROVED_LENDER_ROLE (msg_sender e)
        then Inl (MissingRole (msg_sender e) APPROVED_LENDER_ROLE)
      else if \<not> msg_value e \<ge> apiRequestFee s then Inl (Revert ''Insufficient API fee'')
      else if borrower = 0 then Inl (Revert ''Invalid borrower address'')
      else if \<not> requestedAmount > 0 then Inl (Revert ''Invalid amount'')
      else if \<not> aa_hasAccess access then Inl (Revert ''No API access'')
      else if \<not> aa_requestsUsed access < aa_requestLimit access
        then Inl (Revert ''Request limit exceeded'')
      else case
        (if block_timestamp e \<ge> aa_resetTime access then
           (case checked_add (block_timestamp e) days30 of
              Inl err \<Rightarrow> Inl err
            | Inr reset \<Rightarrow> Inr (access\<lparr> aa_requestsUsed := 0, aa_resetTime := reset \<rparr>))
         else Inr access) of
        Inl err \<Rightarrow> Inl err
      | Inr access1 \<Rightarrow>
      (case checked_add (aa_requestsUsed access1) 1 of
        Inl err \<Rightarrow> Inl err
      | Inr used \<Rightarrow>
      (case checked_add (nextRequestId s) 1 of
        Inl err \<Rightarrow> Inl err
      | Inr next \<Rightarrow>
      (case checked_add (li_totalRequests (lenders s (msg_sender e))) 1 of
        Inl err \<Rightarrow> Inl err
      | Inr tot \<Rightarrow>
      (let requestId = nextRequestId s;
           s1 = s\<lparr> apiAccess := (apiAccess s)(msg_sender e := access1\<lparr> aa_requestsUsed := used \<rparr>),
                   nextRequestId := next,
                   creditRequests := (creditRequests s)(requestId :=
                      new_request requestId (msg_sender e) borrower requestedAmount (block_timestamp e)),
                   lenderRequests := (lenderRequests s)(msg_sender e :=
                      lenderRequests s (msg_sender e) @ [requestId]),
                   lenders := (lenders s)(msg_sender e :=
                      (lenders s (msg_sender e))\<lparr> li_totalRequests := tot \<rparr>),
                   lp_balance := lp_balance s + msg_value e,
                   lp_log := lp_log s @ [CreditRequestSubmitted requestId (msg_sender e) borrower
                                           requestedAmount] \<rparr>
       in case processCreditRequest reg self s1 requestId of
            Inl err \<Rightarrow> Inl err
          | Inr s2 \<Rightarrow> Inr (s2, requestId))))))"

text \<open>
  The loop of \<^verbatim>\<open>_processBatchRequest\<close>, at index \<open>i\<close> with the borrowers from \<open>i\<close> on
  still to do. The amount is read from the stored batch; an index past the end of that
  array is \<^verbatim>\<open>Panic(0x32)\<close>.
\<close>

fun process_items ::
  "registry \<Rightarrow> address \<Rightarrow> env \<Rightarrow> portal \<Rightarrow> uint256 \<Rightarrow> nat \<Rightarrow> address list \<Rightarrow> error + portal" where
  "process_items reg self e s batchId i [] = Inr s"
| "process_items reg self e s batchId i (borrower # rest) =
     (let batch = batchRequests s batchId in
      case checked_add (nextRequestId s) 1 of
        Inl err \<Rightarrow> Inl err
      | Inr next \<Rightarrow>
          if \<not> i < length (br_requestedAmounts batch) then Inl (Panic 50)
          else
            (let requestId = nextRequestId s;
                 s1 = s\<lparr> nextRequestId := next,
                         creditRequests := (creditRequests s)(requestId :=
                            new_request requestId (br_lender batch) borrower
                              (br_requestedAmounts batch ! i) (block_timestamp e)),
                         lenderRequests := (lenderRequests s)(br_lender batch :=
                            lenderRequests s (br_lender batch) @ [requestId]) \<rparr>
             in case processCreditRequest reg self s1 requestId of
                  Inl err \<Rightarrow> Inl err
                | Inr s2 \<Rightarrow>
                    (case checked_add (br_processedCount (batchRequests s2 batchId)) 1 of
                       Inl err \<Rightarrow> Inl err
                     | Inr n \<Rightarrow>
                         process_items reg self e
                           (s2\<lparr> batchRequests := (batchRequests s2)(batchId :=
                                   (batchRequests s2 batchId)\<lparr> br_processedCount := n \<rparr>) \<rparr>)
                           batchId (i + 1) rest)))"

definition processBatchRequest ::
  "registry \<Rightarrow> address \<Rightarrow> env \<Rightarrow> portal \<Rightarrow> uint256 \<Rightarrow> error + portal" where
  "processBatchRequest reg self e s batchId =
     (let batch = batchRequests s batchId in
      if br_isProcessed batch then Inl (Revert ''Already processed'')
      else case process_items reg self e s batchId 0 (br_borrowers batch) of
        Inl err \<Rightarrow> Inl err
      | Inr s1 \<Rightarrow>
          (let batch1 = batchRequests s1 batchId in
           case checked_add (li_totalRequests (lenders s1 (br_lender batch1)))
                            (length (br_borrowers batch1)) of
             Inl err \<Rightarrow> Inl err
           | Inr tot \<Rightarrow>
               Inr (s1\<lparr> batchRequests := (batchRequests s1)(batchId :=
                           batch1\<lparr> br_isProcessed := True \<rparr>),
                        lenders := (lenders s1)(br_lender batch1 :=
                           (lenders s1 (br_lender batch1))\<lparr> li_totalRequests := tot \<rparr>) \<rparr>)))"

text \<open>\<^verbatim>\<open>submitBatchRequest\<close>. It has no reset of an expired window.\<close>

definition submitBatchRequest ::
  "registry \<Rightarrow> address \<Rightarrow> env \<Rightarrow> portal \<Rightarrow> address list \<Rightarrow> uint256 list \<Rightarrow> error + portal \<times> uint256" where
  "submitBatchRequest reg self e s borrowers requestedAmounts =
     (let access = apiAccess s (msg_sender e) in
      if \<not> lp_roles s APPROVED_LENDER_ROLE (msg_sender e)
        then Inl (MissingRole (msg_sender e) APPROVED_LENDER_ROLE)
      else if length borrowers \<noteq> length requestedAmounts then Inl (Revert ''Array length mismatch'')
      else if \<not> length borrowers \<le> 100 then Inl (Revert ''Batch too large'')
      else case checked_mul (apiRequestFee s) (length borrowers) of
        Inl err \<Rightarrow> Inl err
      | Inr fee \<Rightarrow>
      if \<not> msg_value e \<ge> fee then Inl (Revert ''Insufficient fee'')
      else if \<not> aa_hasAccess access then Inl (Revert ''No API access'')
      else case checked_add (aa_requestsUsed access) (length borrowers) of
        Inl err \<Rightarrow> Inl err
      | Inr used \<Rightarrow>
      if \<not> used \<le> aa_requestLimit access then Inl (Revert ''Request limit exceeded'')
      else case checked_add (nextBatchId s) 1 of
        Inl err \<Rightarrow> Inl err
      | Inr next \<Rightarrow>
      (let batchId = nextBatchId s;
           s1 = s\<lparr> nextBatchId := next,
                   batchRequests := (batchRequests s)(batchId :=
                      \<lparr> br_batchId = batchId, br_lender = msg_sender e, br_borrowers = borrowers,
                        br_requestedAmounts = requestedAmounts, br_timestamp = block_timestamp e,
                        br_isProcessed = False, br_processedCount = 0 \<rparr>),
                   apiAccess := (apiAccess s)(msg_sender e := access\<lparr> aa_requestsUsed := used \<rparr>),
                   lp_balance := lp_balance s + msg_value e,
                   lp_log := lp_log s @ [BatchRequestSubmitted batchId (msg_sender e)
                                           (length borrowers)] \<rparr>
       in case processBatchRequest reg self e s1 batchId of
            Inl err \<Rightarrow> Inl err
          | Inr s2 \<Rightarrow> Inr (s2, batchId)))"

text \<open>The ledger after a call that also returns a value.\<close>

definition ledger_after_call :: "'s \<Rightarrow> error + 's \<times> 'r \<Rightarrow> 's" where
  "ledger_after_call s r = (case r of Inl e \<Rightarrow> s | Inr (s', x) \<Rightarrow> s')"


section \<open>DataMarketplace\<close>

record DataProduct =
  dp_productId :: uint256
  dp_seller :: address
  dp_name :: string
  dp_description :: string
  dp_price :: uint256
  dp_dataHash :: bytes32
  dp_isActive :: bool
  dp_totalSales :: uint256
  dp_rating :: uint256
  dp_reviewCount :: uint256
  dp_createdAt :: uint256
  dp_features :: "string list"
  dp_category :: string

record Purchase =
  pu_purchaseId :: uint256
  pu_productId :: uint256
  pu_buyer :: address
  pu_seller :: address
  pu_price :: uint256
  pu_timestamp :: uint256
  pu_isCompleted :: bool
  pu_accessKey :: bytes32

record Review =
  rv_reviewer :: address
  rv_productId :: uint256
  rv_rating :: "8 word"
  rv_comment :: string
  rv_timestamp :: uint256
  rv_isVerified :: bool

text \<open>A call a contract makes to a contract outside the repository.\<close>

datatype outside_call =
    TokenTransferFrom address address address uint256
  | EtherTransfer address uint256

datatype market_event =
    ProductListed uint256 address string uint256
  | ProductPurchased uint256 uint256 address uint256
  | ProductReviewed uint256 address "8 word" string
  | ProductUpdated uint256 uint256
  | ProductDeactivated uint256
  | MarketCall outside_call

record market =
  products :: "uint256 \<Rightarrow> DataProduct"
  purchases :: "uint256 \<Rightarrow> Purchase"
  productReviews :: "uint256 \<Rightarrow> Review list"
  userPurchases :: "address \<Rightarrow> uint256 list"
  sellerProducts :: "address \<Rightarrow> uint256 list"
  hasPurchased :: "address \<Rightarrow> uint256 \<Rightarrow> bool"
  nextProductId :: uint256
  nextPurchaseId :: uint256
  platformFeePercent :: uint256
  feeRecipient :: address
  paymentToken :: address
  mk_roles :: "role \<Rightarrow> address \<Rightarrow> bool"
  mk_log :: "market_event list"

definition market_init :: "address \<Rightarrow> address \<Rightarrow> address \<Rightarrow> market" where
  "market_init deployer token recipient =
     \<lparr> products = (\<lambda>_. \<lparr> dp_productId = 0, dp_seller = 0, dp_name = [], dp_description = [],
                          dp_price = 0, dp_dataHash = 0, dp_isActive = False, dp_totalSales = 0,
                          dp_rating = 0, dp_reviewCount = 0, dp_createdAt = 0, dp_features = [],
                          dp_category = [] \<rparr>),
       purchases = (\<lambda>_. \<lparr> pu_purchaseId = 0, pu_productId = 0, pu_buyer = 0, pu_seller = 0,
                           pu_price = 0, pu_timestamp = 0, pu_isCompleted = False,
                           pu_accessKey = 0 \<rparr>),
       productReviews = (\<lambda>_. []),
       userPurchases = (\<lambda>_. []),
       sellerProducts = (\<lambda>_. []),
       hasPurchased = (\<lambda>_ _. False),
       nextProductId = 1,
       nextPurchaseId = 1,
       platformFeePercent = 250,
       feeRecipient = recipient,
       paymentToken = token,
       mk_roles = (\<lambda>r a. (r = DEFAULT_ADMIN_ROLE \<or> r = VERIFIER_ROLE) \<and> a = deployer),
       mk_log = [] \<rparr>"

definition listProduct ::
  "env \<Rightarrow> market \<Rightarrow> string \<Rightarrow> string \<Rightarrow> uint256 \<Rightarrow> bytes32 \<Rightarrow> string list \<Rightarrow> string
     \<Rightarrow> error + market \<times> uint256" where
  "listProduct e s name description price dataHash features category =
     (if msg_value e \<noteq> 0 then Inl NotPayable
      else if \<not> length name > 0 then Inl (Revert ''Name cannot be empty'')
      else if \<not> price > 0 then Inl (Revert ''Price must be greater than 0'')
      else if dataHash = 0 then Inl (Revert ''Invalid data hash'')
      else case checked_add (nextProductId s) 1 of
        Inl err \<Rightarrow> Inl err
      | Inr next \<Rightarrow>
          (let productId = nextProductId s in
           Inr (s\<lparr> nextProductId := next,
                    products := (products s)(productId :=
                       \<lparr> dp_productId = productId, dp_seller = msg_sender e, dp_name = name,
                         dp_description = description, dp_price = price, dp_dataHash = dataHash,
                         dp_isActive = True, dp_totalSales = 0, dp_rating = 0, dp_reviewCount = 0,
                         dp_createdAt = block_timestamp e, dp_features = features,
                         dp_category = category \<rparr>),
                    sellerProducts := (sellerProducts s)(msg_sender e :=
                       sellerProducts s (msg_sender e) @ [productId]),
                    mk_log := mk_log s @ [ProductListed productId (msg_sender e) name price] \<rparr>,
                productId)))"

text \<open>
  \<^verbatim>\<open>purchaseProduct\<close>. The two \<^verbatim>\<open>transferFrom\<close> calls go to the payment token, a
  contract outside the repository: each returns or makes the purchase abort
  (\<open>call_returns e 0\<close>, \<open>call_returns e 1\<close>), and its returned flag is not read. The
  access key is a hash of the buyer, the product and the time; \<open>keccak\<close> stands for the
  hash function.
\<close>

definition purchaseProduct ::
  "(address \<Rightarrow> uint256 \<Rightarrow> uint256 \<Rightarrow> bytes32) \<Rightarrow> env \<Rightarrow> market \<Rightarrow> uint256
     \<Rightarrow> error + market \<times> uint256" where
  "purchaseProduct keccak e s productId =
     (let product = products s productId in
      if msg_value e \<noteq> 0 then Inl NotPayable
      else if \<not> dp_isActive product then Inl (Revert ''Product not active'')
      else if \<not> dp_seller product \<noteq> msg_sender e then Inl (Revert ''Cannot buy own product'')
      else if hasPurchased s (msg_sender e) productId then Inl (Revert ''Already purchased'')
      else case checked_mul (dp_price product) (platformFeePercent s) of
        Inl err \<Rightarrow> Inl err
      | Inr scaled \<Rightarrow>
      (let totalPrice = dp_price product;
           platformFee = scaled div 10000 in
       case checked_sub totalPrice platformFee of
        Inl err \<Rightarrow> Inl err
      | Inr sellerAmount \<Rightarrow>
      if \<not> call_returns e 0 then Inl (CallReverted 0)
      else if \<not> call_returns e 1 then Inl (CallReverted 1)
      else case checked_add (nextPurchaseId s) 1 of
        Inl err \<Rightarrow> Inl err
      | Inr next \<Rightarrow>
      (case checked_add (dp_totalSales product) 1 of
        Inl err \<Rightarrow> Inl err
      | Inr sales \<Rightarrow>
      (let purchaseId = nextPurchaseId s in
       Inr (s\<lparr> nextPurchaseId := next,
                purchases := (purchases s)(purchaseId :=
                   \<lparr> pu_purchaseId = purchaseId, pu_productId = productId,
                     pu_buyer = msg_sender e, pu_seller = dp_seller product,
                     pu_price = totalPrice, pu_timestamp = block_timestamp e,
                     pu_isCompleted = True,
                     pu_accessKey = keccak (msg_sender e) productId (block_timestamp e) \<rparr>),
                userPurchases := (userPurchases s)(msg_sender e :=
                   userPurchases s (msg_sender e) @ [purchaseId]),
                hasPurchased := (hasPurchased s)(msg_sender e :=
                   (hasPurchased s (msg_sender e))(productId := True)),
                products := (products s)(productId := product\<lparr> dp_totalSales := sales \<rparr>),
                mk_log := mk_log s @
                   [MarketCall (TokenTransferFrom (paymentToken s) (msg_sender e)
                                  (dp_seller product) sellerAmount),
                    MarketCall (TokenTransferFrom (paymentToken s) (msg_sender e)
                                  (feeRecipient s) platformFee),
                    ProductPurchased purchaseId productId (msg_sender e) totalPrice] \<rparr>,
            purchaseId)))))"

text \<open>The loop of \<^verbatim>\<open>submitReview\<close> that requires every stored reviewer to differ from the caller.\<close>

fun not_reviewed :: "Review list \<Rightarrow> address \<Rightarrow> error + unit" where
  "not_reviewed [] sender = Inr ()"
| "not_reviewed (r # rs) sender =
     (if \<not> rv_reviewer r \<noteq> sender then Inl (Revert ''Already reviewed'')
      else not_reviewed rs sender)"

text \<open>
  \<^verbatim>\<open>submitReview\<close>. In \<^verbatim>\<open>(product.rating * product.reviewCount) + (rating * 100)\<close> the
  factor \<^verbatim>\<open>rating\<close> is a \<^verbatim>\<open>uint8\<close> and the literal \<^verbatim>\<open>100\<close> takes that type, so
  \<^verbatim>\<open>rating * 100\<close> is a checked \<^verbatim>\<open>uint8\<close> product; it is widened to \<^verbatim>\<open>uint256\<close> only
  for the addition.
\<close>

definition submitReview :: "env \<Rightarrow> market \<Rightarrow> uint256 \<Rightarrow> 8 word \<Rightarrow> string \<Rightarrow> error + market" where
  "submitReview e s productId rating comment =
     (let product = products s productId;
          reviews = productReviews s productId in
      if msg_value e \<noteq> 0 then Inl NotPayable
      else if \<not> hasPurchased s (msg_sender e) productId then Inl (Revert ''Must purchase to review'')
      else if \<not> (rating \<ge> 1 \<and> rating \<le> 5) then Inl (Revert ''Rating must be 1-5'')
      else if \<not> length comment > 0 then Inl (Revert ''Comment cannot be empty'')
      else case not_reviewed reviews (msg_sender e) of
        Inl err \<Rightarrow> Inl err
      | Inr _ \<Rightarrow>
      (case checked_mul (dp_rating product) (dp_reviewCount product) of
        Inl err \<Rightarrow> Inl err
      | Inr weighted \<Rightarrow>
      (case checked_mul8 rating 100 of
        Inl err \<Rightarrow> Inl err
      | Inr stars \<Rightarrow>
      (case checked_add weighted (unat stars) of
        Inl err \<Rightarrow> Inl err
      | Inr totalRating \<Rightarrow>
      (case checked_add (dp_reviewCount product) 1 of
        Inl err \<Rightarrow> Inl err
      | Inr reviewCount \<Rightarrow>
      (case checked_div totalRating reviewCount of
        Inl err \<Rightarrow> Inl err
      | Inr average \<Rightarrow>
       Inr (s\<lparr> productReviews := (productReviews s)(productId := reviews @
                   [\<lparr> rv_reviewer = msg_sender e, rv_productId = productId, rv_rating = rating,
                      rv_comment = comment, rv_timestamp = block_timestamp e,
                      rv_isVerified = True \<rparr>]),
                products := (products s)(productId :=
                   product\<lparr> dp_reviewCount := reviewCount, dp_rating := average \<rparr>),
                mk_log := mk_log s @ [ProductReviewed productId (msg_sender e) rating comment] \<rparr>)))))))"


section \<open>FederatedLearningCoordinator\<close>

record ModelUpdate =
  mu_updateHash :: bytes32
  mu_node :: address
  mu_timestamp :: uint256
  mu_round :: uint256
  mu_isValidated :: bool
  mu_stake :: uint256
  mu_gradientHash :: bytes32

record AggregatedModel =
  am_modelHash :: bytes32
  am_round :: uint256
  am_timestamp :: uint256
  am_aggregator :: address
  am_participantCount :: uint256
  am_isActive :: bool
  am_accuracy :: uint256

record TrainingRound =
  tr_roundId :: uint256
  tr_startTime :: uint256
  tr_endTime :: uint256
  tr_minParticipants :: uint256
  tr_maxParticipants :: uint256
  tr_currentParticipants :: uint256
  tr_isActive :: bool
  tr_rewardPool :: uint256
  tr_participants :: "address \<Rightarrow> bool"
  tr_updates :: "address \<Rightarrow> ModelUpdate"

record NodeInfo =
  ni_nodeAddress :: address
  ni_reputation :: uint256
  ni_totalContributions :: uint256
  ni_successfulRounds :: uint256
  ni_totalRewards :: uint256
  ni_isActive :: bool
  ni_lastActiveRound :: uint256

datatype coordinator_event =
    ModelUpdateSubmitted address bytes32 uint256 uint256
  | ModelAggregated uint256 bytes32 address uint256
  | TrainingRoundStarted uint256 uint256 uint256 uint256
  | TrainingRoundEnded uint256 uint256 bytes32
  | NodeRegistered address uint256
  | RewardsDistributed uint256 uint256
  | NodeSlashed address uint256 string
  | CoordinatorCall outside_call

record coordinator =
  modelUpdates :: "address \<Rightarrow> ModelUpdate"
  models :: "uint256 \<Rightarrow> AggregatedModel"
  trainingRounds :: "uint256 \<Rightarrow> TrainingRound"
  nodes :: "address \<Rightarrow> NodeInfo"
  currentRound :: uint256
  totalRounds :: uint256
  minStakeAmount :: uint256
  rewardPerParticipant :: uint256
  rewardToken :: address
  fl_roles :: "role \<Rightarrow> address \<Rightarrow> bool"
  fl_balance :: uint256
  fl_log :: "coordinator_event list"

definition zero_update :: ModelUpdate where
  "zero_update = \<lparr> mu_updateHash = 0, mu_node = 0, mu_timestamp = 0, mu_round = 0,
                    mu_isValidated = False, mu_stake = 0, mu_gradientHash = 0 \<rparr>"

definition coordinator_init :: "address \<Rightarrow> address \<Rightarrow> uint256 \<Rightarrow> uint256 \<Rightarrow> coordinator" where
  "coordinator_init deployer token minStake reward =
     \<lparr> modelUpdates = (\<lambda>_. zero_update),
       models = (\<lambda>_. \<lparr> am_modelHash = 0, am_round = 0, am_timestamp = 0, am_aggregator = 0,
                        am_participantCount = 0, am_isActive = False, am_accuracy = 0 \<rparr>),
       trainingRounds = (\<lambda>_. \<lparr> tr_roundId = 0, tr_startTime = 0, tr_endTime = 0,
                        tr_minParticipants = 0, tr_maxParticipants = 0,
                        tr_currentParticipants = 0, tr_isActive = False, tr_rewardPool = 0,
                        tr_participants = (\<lambda>_. False), tr_updates = (\<lambda>_. zero_update) \<rparr>),
       nodes = (\<lambda>_. \<lparr> ni_nodeAddress = 0, ni_reputation = 0, ni_totalContributions = 0,
                       ni_successfulRounds = 0, ni_totalRewards = 0, ni_isActive = False,
                       ni_lastActiveRound = 0 \<rparr>),
       currentRound = 1,
       totalRounds = 0,
       minStakeAmount = minStake,
       rewardPerParticipant = reward,
       rewardToken = token,
       fl_roles = (\<lambda>r a. (r = DEFAULT_ADMIN_ROLE \<or> r = AGGREGATOR_ROLE) \<and> a = deployer),
       fl_balance = 0,
       fl_log = [] \<rparr>"

definition registerNode :: "env \<Rightarrow> coordinator \<Rightarrow> error + coordinator" where
  "registerNode e s =
     (if msg_value e \<noteq> 0 then Inl NotPayable
      else if ni_isActive (nodes s (msg_sender e)) then Inl (Revert ''Node already registered'')
      else Inr (s\<lparr> nodes := (nodes s)(msg_sender e :=
                      \<lparr> ni_nodeAddress = msg_sender e, ni_reputation = 100,
                        ni_totalContributions = 0, ni_successfulRounds = 0, ni_totalRewards = 0,
                        ni_isActive = True, ni_lastActiveRound = 0 \<rparr>),
                   fl_log := fl_log s @ [NodeRegistered (msg_sender e) 100] \<rparr>))"

text \<open>
  \<^verbatim>\<open>startTrainingRound\<close>. \<open>self\<close> is the coordinator's own address. With a nonzero
  pool the reward token's \<^verbatim>\<open>transferFrom\<close> is called, outside call number 0.
\<close>

definition startTrainingRound ::
  "address \<Rightarrow> env \<Rightarrow> coordinator \<Rightarrow> uint256 \<Rightarrow> uint256 \<Rightarrow> uint256 \<Rightarrow> uint256 \<Rightarrow> error + coordinator" where
  "startTrainingRound self e s duration minParticipants maxParticipants rewardPool =
     (if msg_value e \<noteq> 0 then Inl NotPayable
      else if \<not> fl_roles s AGGREGATOR_ROLE (msg_sender e)
        then Inl (MissingRole (msg_sender e) AGGREGATOR_ROLE)
      else if tr_isActive (trainingRounds s (currentRound s)) then Inl (Revert ''Round already active'')
      else if \<not> duration > 0 then Inl (Revert ''Invalid duration'')
      else if \<not> (minParticipants > 0 \<and> maxParticipants \<ge> minParticipants)
        then Inl (Revert ''Invalid participant limits'')
      else case checked_add (block_timestamp e) duration of
        Inl err \<Rightarrow> Inl err
      | Inr endTime \<Rightarrow>
          if rewardPool > 0 \<and> \<not> call_returns e 0 then Inl (CallReverted 0)
          else
            Inr (s\<lparr> trainingRounds := (trainingRounds s)(currentRound s :=
                        (trainingRounds s (currentRound s))
                          \<lparr> tr_roundId := currentRound s, tr_startTime := block_timestamp e,
                            tr_endTime := endTime, tr_minParticipants := minParticipants,
                            tr_maxParticipants := maxParticipants, tr_currentParticipants := 0,
                            tr_isActive := True, tr_rewardPool := rewardPool \<rparr>),
                     fl_log := fl_log s @
                        (if rewardPool > 0
                         then [CoordinatorCall (TokenTransferFrom (rewardToken s) (msg_sender e)
                                                  self rewardPool)]
                         else []) @
                        [TrainingRoundStarted (currentRound s) (block_timestamp e) endTime
                           rewardPool] \<rparr>))"

definition submitModelUpdate :: "env \<Rightarrow> coordinator \<Rightarrow> bytes32 \<Rightarrow> bytes32 \<Rightarrow> error + coordinator" where
  "submitModelUpdate e s updateHash gradientHash =
     (let round = trainingRounds s (currentRound s);
          node = nodes s (msg_sender e) in
      if \<not> ni_isActive node then Inl (Revert ''Node not registered'')
      else if updateHash = 0 then Inl (Revert ''Invalid update hash'')
      else if gradientHash = 0 then Inl (Revert ''Invalid gradient hash'')
      else if \<not> tr_isActive round then Inl (Revert ''No active training round'')
      else if \<not> block_timestamp e \<le> tr_endTime round then Inl (Revert ''Training round ended'')
      else if tr_participants round (msg_sender e)
        then Inl (Revert ''Already participated in this round'')
      else if \<not> tr_currentParticipants round < tr_maxParticipants round
        then Inl (Revert ''Round is full'')
      else if \<not> msg_value e \<ge> minStakeAmount s then Inl (Revert ''Insufficient stake'')
      else case checked_add (tr_currentParticipants round) 1 of
        Inl err \<Rightarrow> Inl err
      | Inr count \<Rightarrow>
      (case checked_add (ni_totalContributions node) 1 of
        Inl err \<Rightarrow> Inl err
      | Inr contributions \<Rightarrow>
      (let update = \<lparr> mu_updateHash = updateHash, mu_node = msg_sender e,
                      mu_timestamp = block_timestamp e, mu_round = currentRound s,
                      mu_isValidated = False, mu_stake = msg_value e,
                      mu_gradientHash = gradientHash \<rparr> in
       Inr (s\<lparr> trainingRounds := (trainingRounds s)(currentRound s :=
                   round\<lparr> tr_participants := (tr_participants round)(msg_sender e := True),
                          tr_currentParticipants := count,
                          tr_updates := (tr_updates round)(msg_sender e := update) \<rparr>),
                modelUpdates := (modelUpdates s)(msg_sender e := update),
                nodes := (nodes s)(msg_sender e :=
                   node\<lparr> ni_totalContributions := contributions,
                         ni_lastActiveRound := currentRound s \<rparr>),
                fl_balance := fl_balance s + msg_value e,
                fl_log := fl_log s @ [ModelUpdateSubmitted (msg_sender e) updateHash
                                        (currentRound s) (msg_value e)] \<rparr>))))"

text \<open>
  \<^verbatim>\<open>validateModelUpdate\<close>. Only the accepting branch sets \<^verbatim>\<open>isValidated\<close>; the
  rejecting branch lowers the reputation and emits \<^verbatim>\<open>NodeSlashed\<close>.
\<close>

definition validateModelUpdate :: "env \<Rightarrow> coordinator \<Rightarrow> address \<Rightarrow> bool \<Rightarrow> error + coordinator" where
  "validateModelUpdate e s node isValid =
     (let round = trainingRounds s (currentRound s);
          update = tr_updates round node in
      if msg_value e \<noteq> 0 then Inl NotPayable
      else if \<not> fl_roles s VALIDATOR_ROLE (msg_sender e)
        then Inl (MissingRole (msg_sender e) VALIDATOR_ROLE)
      else if \<not> tr_participants round node then Inl (Revert ''Node did not participate'')
      else if mu_isValidated update then Inl (Revert ''Already validated'')
      else if isValid then
        (case checked_add (ni_reputation (nodes s node)) 10 of
           Inl err \<Rightarrow> Inl err
         | Inr reputation \<Rightarrow>
             Inr (s\<lparr> trainingRounds := (trainingRounds s)(currentRound s :=
                         round\<lparr> tr_updates := (tr_updates round)(node :=
                                  update\<lparr> mu_isValidated := True \<rparr>) \<rparr>),
                      nodes := (nodes s)(node := (nodes s node)\<lparr> ni_reputation := reputation \<rparr>) \<rparr>))
      else
        Inr (s\<lparr> nodes := (nodes s)(node := (nodes s node)
                    \<lparr> ni_reputation := (if ni_reputation (nodes s node) > 20
                                         then ni_reputation (nodes s node) - 20 else 0) \<rparr>),
                 fl_log := fl_log s @ [NodeSlashed node (mu_stake update) ''Invalid model update''] \<rparr>))"

text \<open>
  The counting loop of \<^verbatim>\<open>_distributeRewards\<close>: \<open>i\<close> runs up to the round's participant
  count and \<^verbatim>\<open>validParticipants\<close> is incremented each time.
\<close>

function count_valid :: "uint256 \<Rightarrow> uint256 \<Rightarrow> uint256 \<Rightarrow> error + uint256" where
  "count_valid i n validParticipants =
     (if i < n then
        (case checked_add validParticipants 1 of
           Inl err \<Rightarrow> Inl err
         | Inr v \<Rightarrow>
             if i + 1 \<le> MAX_UINT256 then count_valid (i + 1) n v else Inl (Panic 17))
      else Inr validParticipants)"
  by pat_completeness auto
termination
  by (relation "measure (\<lambda>(i, n, v). n - i)") auto

declare count_valid.simps [simp del]

text \<open>
  \<^verbatim>\<open>_distributeRewards\<close>: the share \<^verbatim>\<open>rewardPerNode\<close> is computed and not used; the
  only effect is the \<^verbatim>\<open>RewardsDistributed\<close> event.
\<close>

definition distributeRewards :: "coordinator \<Rightarrow> uint256 \<Rightarrow> error + coordinator" where
  "distributeRewards s roundId =
     (let round = trainingRounds s roundId;
          totalRewards = tr_rewardPool round in
      case count_valid 0 (tr_currentParticipants round) 0 of
        Inl err \<Rightarrow> Inl err
      | Inr validParticipants \<Rightarrow>
          if validParticipants > 0 \<and> totalRewards > 0 then
            (case checked_div totalRewards validParticipants of
               Inl err \<Rightarrow> Inl err
             | Inr rewardPerNode \<Rightarrow>
                 Inr (s\<lparr> fl_log := fl_log s @ [RewardsDistributed roundId totalRewards] \<rparr>))
          else Inr s)"

definition aggregateModel ::
  "env \<Rightarrow> coordinator \<Rightarrow> uint256 \<Rightarrow> bytes32 \<Rightarrow> uint256 \<Rightarrow> error + coordinator" where
  "aggregateModel e s roundId modelHash accuracy =
     (let round = trainingRounds s roundId in
      if msg_value e \<noteq> 0 then Inl NotPayable
      else if \<not> fl_roles s AGGREGATOR_ROLE (msg_sender e)
        then Inl (MissingRole (msg_sender e) AGGREGATOR_ROLE)
      else if \<not> tr_isActive round then Inl (Revert ''Round not active'')
      else if \<not> block_timestamp e > tr_endTime round then Inl (Revert ''Round not ended'')
      else if \<not> tr_currentParticipants round \<ge> tr_minParticipants round
        then Inl (Revert ''Insufficient participants'')
      else if modelHash = 0 then Inl (Revert ''Invalid model hash'')
      else if \<not> accuracy \<le> 10000 then Inl (Revert ''Invalid accuracy'')
      else
        (let published = (models s)(roundId :=
                \<lparr> am_modelHash = modelHash, am_round = roundId,
                  am_timestamp = block_timestamp e, am_aggregator = msg_sender e,
                  am_participantCount = tr_currentParticipants round, am_isActive = True,
                  am_accuracy = accuracy \<rparr>);
             s1 = s\<lparr> models := (if roundId > 1
                                 then published(roundId - 1 :=
                                        (published (roundId - 1))\<lparr> am_isActive := False \<rparr>)
                                 else published),
                     trainingRounds := (trainingRounds s)(roundId := round\<lparr> tr_isActive := False \<rparr>),
                     fl_log := fl_log s @
                        [ModelAggregated roundId modelHash (msg_sender e)
                           (tr_currentParticipants round),
                         TrainingRoundEnded roundId (tr_currentParticipants round) modelHash] \<rparr>
         in case distributeRewards s1 roundId of
              Inl err \<Rightarrow> Inl err
            | Inr s2 \<Rightarrow>
                (case checked_add (currentRound s2) 1 of
                   Inl err \<Rightarrow> Inl err
                 | Inr current \<Rightarrow>
                     (case checked_add (totalRounds s2) 1 of
                        Inl err \<Rightarrow> Inl err
                      | Inr rounds \<Rightarrow>
                          Inr (s2\<lparr> currentRound := current, totalRounds := rounds \<rparr>)))))"

text \<open>
  \<^verbatim>\<open>emergencyWithdraw\<close> sends the whole balance to the caller, outside call number 0;
  the two setters; and the role functions inherited from \<^verbatim>\<open>AccessControl\<close>.
\<close>

definition emergencyWithdraw :: "env \<Rightarrow> coordinator \<Rightarrow> error + coordinator" where
  "emergencyWithdraw e s =
     (if msg_value e \<noteq> 0 then Inl NotPayable
      else if \<not> fl_roles s DEFAULT_ADMIN_ROLE (msg_sender e)
        then Inl (MissingRole (msg_sender e) DEFAULT_ADMIN_ROLE)
      else if \<not> call_returns e 0 then Inl (CallReverted 0)
      else Inr (s\<lparr> fl_balance := 0,
                   fl_log := fl_log s @ [CoordinatorCall (EtherTransfer (msg_sender e) (fl_balance s))] \<rparr>))"

definition updateMinStakeAmount :: "env \<Rightarrow> coordinator \<Rightarrow> uint256 \<Rightarrow> error + coordinator" where
  "updateMinStakeAmount e s newAmount =
     (if msg_value e \<noteq> 0 then Inl NotPayable
      else if \<not> fl_roles s DEFAULT_ADMIN_ROLE (msg_sender e)
        then Inl (MissingRole (msg_sender e) DEFAULT_ADMIN_ROLE)
      else Inr (s\<lparr> minStakeAmount := newAmount \<rparr>))"

definition updateRewardPerParticipant :: "env \<Rightarrow> coordinator \<Rightarrow> uint256 \<Rightarrow> error + coordinator" where
  "updateRewardPerParticipant e s newAmount =
     (if msg_value e \<noteq> 0 then Inl NotPayable
      else if \<not> fl_roles s DEFAULT_ADMIN_ROLE (msg_sender e)
        then Inl (MissingRole (msg_sender e) DEFAULT_ADMIN_ROLE)
      else Inr (s\<lparr> rewardPerParticipant := newAmount \<rparr>))"

definition fl_grantRole :: "env \<Rightarrow> coordinator \<Rightarrow> role \<Rightarrow> address \<Rightarrow> error + coordinator" where
  "fl_grantRole e s r account =
     (if msg_value e \<noteq> 0 then Inl NotPayable
      else if \<not> fl_roles s DEFAULT_ADMIN_ROLE (msg_sender e)
        then Inl (MissingRole (msg_sender e) DEFAULT_ADMIN_ROLE)
      else Inr (s\<lparr> fl_roles := set_role (fl_roles s) r account True \<rparr>))"

definition fl_revokeRole :: "env \<Rightarrow> coordinator \<Rightarrow> role \<Rightarrow> address \<Rightarrow> error + coordinator" where
  "fl_revokeRole e s r account =
     (if msg_value e \<noteq> 0 then Inl NotPayable
      else if \<not> fl_roles s DEFAULT_ADMIN_ROLE (msg_sender e)
        then Inl (MissingRole (msg_sender e) DEFAULT_ADMIN_ROLE)
      else Inr (s\<lparr> fl_roles := set_role (fl_roles s) r account False \<rparr>))"

definition fl_renounceRole :: "env \<Rightarrow> coordinator \<Rightarrow> role \<Rightarrow> address \<Rightarrow> error + coordinator" where
  "fl_renounceRole e s r account =
     (if msg_value e \<noteq> 0 then Inl NotPayable
      else if account \<noteq> msg_sender e then Inl (Revert ''AccessControl: can only renounce roles for self'')
      else Inr (s\<lparr> fl_roles := set_role (fl_roles s) r account False \<rparr>))"

text \<open>Every state-changing entry point of the coordinator, and the states it can reach.\<close>

datatype coordinator_call =
    RegisterNode
  | StartTrainingRound uint256 uint256 uint256 uint256
  | SubmitModelUpdate bytes32 bytes32
  | ValidateModelUpdate address bool
  | AggregateModel uint256 bytes32 uint256
  | EmergencyWithdraw
  | UpdateMinStakeAmount uint256
  | UpdateRewardPerParticipant uint256
  | CoordinatorGrantRole role address
  | CoordinatorRevokeRole role address
  | CoordinatorRenounceRole role address

fun coordinator_exec :: "address \<Rightarrow> env \<Rightarrow> coordinator \<Rightarrow> coordinator_call \<Rightarrow> error + coordinator" where
  "coordinator_exec self e s RegisterNode = registerNode e s"
| "coordinator_exec self e s (StartTrainingRound d lo hi pool) = startTrainingRound self e s d lo hi pool"
| "coordinator_exec self e s (SubmitModelUpdate h g) = submitModelUpdate e s h g"
| "coordinator_exec self e s (ValidateModelUpdate n v) = validateModelUpdate e s n v"
| "coordinator_exec self e s (AggregateModel r h a) = aggregateModel e s r h a"
| "coordinator_exec self e s EmergencyWithdraw = emergencyWithdraw e s"
| "coordinator_exec self e s (UpdateMinStakeAmount n) = updateMinStakeAmount e s n"
| "coordinator_exec self e s (UpdateRewardPerParticipant n) = updateRewardPerParticipant e s n"
| "coordinator_exec self e s (CoordinatorGrantRole r a) = fl_grantRole e s r a"
| "coordinator_exec self e s (CoordinatorRevokeRole r a) = fl_revokeRole e s r a"
| "coordinator_exec self e s (CoordinatorRenounceRole r a) = fl_renounceRole e s r a"

inductive coordinator_reachable :: "address \<Rightarrow> coordinator \<Rightarrow> bool" for self :: address where
  deployed: "coordinator_reachable self (coordinator_init deployer token minStake reward)"
| transaction: "coordinator_reachable self s \<Longrightarrow> coordinator_exec self e s c = Inr s'
                \<Longrightarrow> coordinator_reachable self s'"


text \<open>
  What holds in every state the coordinator reaches: rounds are numbered from 1 and the
  round counter is one ahead of the number of aggregated rounds; only the current round
  can be open; only the model of the round before the current one can be active; and
  every participant count is a \<^verbatim>\<open>uint256\<close>.
\<close>

definition coordinator_inv :: "coordinator \<Rightarrow> bool" where
  "coordinator_inv s =
     (1 \<le> currentRound s \<and> currentRound s = totalRounds s + 1
      \<and> (\<forall>k. am_isActive (models s k) \<longrightarrow> 1 \<le> k \<and> k + 1 = currentRound s)
      \<and> (\<forall>k. tr_isActive (trainingRounds s k) \<longrightarrow> k = currentRound s)
      \<and> (\<forall>k. tr_currentParticipants (trainingRounds s k) \<le> MAX_UINT256))"

text \<open>
  What every entry point other than \<^verbatim>\<open>aggregateModel\<close> leaves alone: the counters, the
  models and every round but the current one, whose participant count stays in range.
\<close>

definition keeps_rounds :: "coordinator \<Rightarrow> coordinator \<Rightarrow> bool" where
  "keeps_rounds s s' =
     (currentRound s' = currentRound s \<and> totalRounds s' = totalRounds s \<and> models s' = models s
      \<and> (\<forall>k. k \<noteq> currentRound s \<longrightarrow> trainingRounds s' k = trainingRounds s k)
      \<and> (tr_currentParticipants (trainingRounds s (currentRound s)) \<le> MAX_UINT256
           \<longrightarrow> tr_currentParticipants (trainingRounds s' (currentRound s)) \<le> MAX_UINT256))"

section \<open>Worked states\<close>

text \<open>
  Concrete calls and states on which the theorems below are evaluated. In a
  \<open>call_env\<close> every outside call returns.
\<close>

definition call_env :: "address \<Rightarrow> uint256 \<Rightarrow> uint256 \<Rightarrow> env" where
  "call_env sender val now =
     \<lparr> msg_sender = sender, msg_value = val, block_timestamp = now, call_returns = (\<lambda>_. True) \<rparr>"

text \<open>The registry deployed by account 1 and then paused by it.\<close>

definition paused_registry :: registry where
  "paused_registry = (registry_init 1)\<lparr> reg_paused := True \<rparr>"

text \<open>A run of transactions on the registry; an aborted one leaves the state as it was.\<close>

fun registry_run :: "registry \<Rightarrow> (env \<times> registry_call) list \<Rightarrow> registry" where
  "registry_run s [] = s"
| "registry_run s ((e, c) # rest) = registry_run (ledger_after s (registry_exec e s c)) rest"

text \<open>User 2 of the registry deployed by account 1 has granted lenders 5, 6 and 7, in this order.\<close>

definition three_lenders :: registry where
  "three_lenders =
     registry_run (registry_init 1)
       [(call_env 2 0 1000, GrantLenderAccess 5), (call_env 2 0 1001, GrantLenderAccess 6),
        (call_env 2 0 1002, GrantLenderAccess 7)]"

text \<open>
  The registry deployed by account 1, who then gives the portal (account 9) the lender
  role and files the score \<open>sc\<close> for borrower 7. A score outside 300..850 is refused,
  so \<open>scored_registry 0\<close> has no score on file for the borrower.
\<close>

definition scored_registry :: "uint256 \<Rightarrow> registry" where
  "scored_registry sc =
     registry_run (registry_init 1)
       [(call_env 1 0 500, GrantLenderRole 9), (call_env 1 0 600, UpdateScore 7 sc)]"

text \<open>
  The portal deployed by account 1, with lender 3 registered, approved and holding a
  basic API grant (limit 100) of which \<open>used\<close> requests are used and whose window ends
  at \<open>reset\<close>; the lender's base rate is \<open>rate\<close> basis points.
\<close>

definition ready_portal :: "uint256 \<Rightarrow> uint256 \<Rightarrow> uint256 \<Rightarrow> portal" where
  "ready_portal used reset rate =
     (portal_init 1)
       \<lparr> lenders := (lenders (portal_init 1))(3 := (lenders (portal_init 1) 3)
            \<lparr> li_lenderAddress := 3, li_companyName := ''Acme'', li_licenseNumber := ''L-1'',
              li_isApproved := True, li_isActive := True, li_interestRate := rate \<rparr>),
         apiAccess := (apiAccess (portal_init 1))(3 :=
            \<lparr> aa_lender = 3, aa_hasAccess = True, aa_requestLimit = 100,
              aa_requestsUsed = used, aa_resetTime = reset, aa_accessLevel = ''basic'' \<rparr>),
         lp_roles := set_role (set_role (lp_roles (portal_init 1)) LENDER_ROLE 3 True)
                       APPROVED_LENDER_ROLE 3 True \<rparr>"

text \<open>
  Transactions on the marketplace (the three entry points the theorems below run) and
  a run of them. The marketplace is deployed by account 1 with payment token 50 and fee
  recipient 6; seller 2 lists product 1 at price 1000 and buyer 4 buys it.
\<close>

datatype market_call =
    ListProduct string string uint256 bytes32 "string list" string
  | PurchaseProduct uint256
  | SubmitReview uint256 "8 word" string

fun market_exec ::
  "(address \<Rightarrow> uint256 \<Rightarrow> uint256 \<Rightarrow> bytes32) \<Rightarrow> env \<Rightarrow> market \<Rightarrow> market_call \<Rightarrow> error + market" where
  "market_exec keccak e s (ListProduct n d p h fs c) = map_sum id fst (listProduct e s n d p h fs c)"
| "market_exec keccak e s (PurchaseProduct i) = map_sum id fst (purchaseProduct keccak e s i)"
| "market_exec keccak e s (SubmitReview i r c) = submitReview e s i r c"

fun market_run ::
  "(address \<Rightarrow> uint256 \<Rightarrow> uint256 \<Rightarrow> bytes32) \<Rightarrow> market \<Rightarrow> (env \<times> market_call) list \<Rightarrow> market" where
  "market_run keccak s [] = s"
| "market_run keccak s ((e, c) # rest) =
     market_run keccak (ledger_after s (market_exec keccak e s c)) rest"

definition listed_market :: market where
  "listed_market =
     market_run (\<lambda>buyer product now. 1) (market_init 1 50 6)
       [(call_env 2 0 1000, ListProduct ''Report'' ''A credit report'' 1000 77 [] ''credit'')]"

definition purchased_market :: market where
  "purchased_market =
     market_run (\<lambda>buyer product now. 1) listed_market [(call_env 4 0 2000, PurchaseProduct 1)]"

text \<open>
  A run of transactions on the coordinator (account 20). It is deployed by account 1
  with reward token 50 and minimum stake 10; account 1 makes account 8 a validator,
  node 4 registers, account 1 opens round 1 at time 120 for 1000 seconds with a quorum
  of \<open>quorum\<close>, at most 5 participants and a reward pool of 100, and node 4 submits an
  update with a stake of 10.
\<close>

fun coordinator_run :: "address \<Rightarrow> coordinator \<Rightarrow> (env \<times> coordinator_call) list \<Rightarrow> coordinator" where
  "coordinator_run self s [] = s"
| "coordinator_run self s ((e, c) # rest) =
     coordinator_run self (ledger_after s (coordinator_exec self e s c)) rest"

definition round_with_update :: "uint256 \<Rightarrow> coordinator" where
  "round_with_update quorum =
     coordinator_run 20 (coordinator_init 1 50 10 5)
       [(call_env 1 0 100, CoordinatorGrantRole VALIDATOR_ROLE 8),
        (call_env 4 0 110, RegisterNode),
        (call_env 1 0 120, StartTrainingRound 1000 quorum 5 100),
        (call_env 4 10 130, SubmitModelUpdate 11 12)]"

text \<open>
  The run continued: at time 2000 account 1 aggregates round 1, whose model becomes the
  active one; at time 2100 it opens round 2 for 1000 seconds with a quorum of 1; node 4
  submits an update to round 2.
\<close>

definition second_round :: coordinator where
  "second_round =
     coordinator_run 20 (round_with_update 1)
       [(call_env 1 0 2000, AggregateModel 1 99 9000),
        (call_env 1 0 2100, StartTrainingRound 1000 1 5 100),
        (call_env 4 10 2200, SubmitModelUpdate 13 14)]"


section \<open>Theorems: CreditScoreRegistry\<close>

subsection \<open>The swap-and-truncate removal\<close>

lemma swap_pop:
  assumes "distinct xs" "i < length xs"
  shows "set (butlast (xs[i := xs ! (length xs - 1)])) = set xs - {xs ! i}
       \<and> distinct (butlast (xs[i := xs ! (length xs - 1)]))"
proof (cases xs rule: rev_cases)
  case Nil
  with assms show ?thesis by simp
next
  case (snoc ys z)
  show ?thesis
  proof (cases "i = length ys")
    case True
    with snoc assms show ?thesis by (auto simp: nth_append)
  next
    case False
    with snoc assms have i: "i < length ys" by simp
    have "xs[i := xs ! (length xs - 1)] = ys[i := z] @ [z]"
      using snoc i by (simp add: list_update_append nth_append)
    moreover have "set (ys[i := z]) = insert z (set ys - {ys ! i})"
      using assms snoc i by (auto simp: set_update_distinct)
    moreover have "distinct (ys[i := z])"
      using assms snoc i by (auto simp: distinct_list_update)
    ultimately show ?thesis using snoc i assms by (auto simp: nth_append)
  qed
qed

lemma remove_lender_found:
  "distinct xs \<Longrightarrow> lender \<in> set (drop i xs) \<Longrightarrow>
   set (remove_lender i xs lender) = set xs - {lender} \<and> distinct (remove_lender i xs lender)"
proof (induction i xs lender rule: remove_lender.induct)
  case (1 i xs lender)
  from "1.prems" have il: "i < length xs" by (cases "i < length xs") auto
  show ?case
  proof (cases "xs ! i = lender")
    case True
    with il swap_pop[OF "1.prems"(1) il] show ?thesis
      by (subst remove_lender.simps, subst (2) remove_lender.simps) simp
  next
    case False
    have "drop i xs = xs ! i # drop (i + 1) xs"
      using il by (simp add: Cons_nth_drop_Suc)
    with False "1.prems" have "lender \<in> set (drop (i + 1) xs)" by auto
    with "1.IH"[OF il False "1.prems"(1)] il False show ?thesis
      by (subst remove_lender.simps, subst (2) remove_lender.simps) simp
  qed
qed

subsection \<open>The lender list and the access flags agree\<close>

lemma batch_loop_frame:
  "batch_loop e s ps = Inr s' \<Longrightarrow>
     consents s' = consents s \<and> lenderAccess s' = lenderAccess s"
proof (induction ps arbitrary: s)
  case Nil
  then show ?case by simp
next
  case (Cons p ps)
  obtain u v where p: "p = (u, v)" by (cases p)
  from Cons.prems p show ?case
    by (auto split: if_splits sum.splits dest!: Cons.IH)
qed

lemma lenders_consistent_init: "lenders_consistent (registry_init d)"
  by (simp add: lenders_consistent_def registry_init_def)

lemma grant_consistent:
  assumes "lenders_consistent s" "grantLenderAccess e s l = Inr s'"
  shows "lenders_consistent s'"
  using assms unfolding lenders_consistent_def grantLenderAccess_def
  by (auto split: if_splits)

lemma revoke_consistent:
  assumes inv: "lenders_consistent s" and r: "revokeLenderAccess e s l = Inr s'"
  shows "lenders_consistent s'"
proof -
  let ?u = "msg_sender e"
  let ?xs = "dc_authorizedLenders (consents s ?u)"
  from r have acc: "lenderAccess s ?u l"
    by (auto simp: revokeLenderAccess_def split: if_splits)
  from inv have d: "distinct ?xs" and m: "l \<in> set ?xs"
    using acc by (auto simp: lenders_consistent_def)
  from remove_lender_found[OF d, of l 0] m
  have rm: "set (remove_lender 0 ?xs l) = set ?xs - {l}" "distinct (remove_lender 0 ?xs l)"
    by simp_all
  from r have s': "s' = s\<lparr> lenderAccess := (lenderAccess s)(?u := (lenderAccess s ?u)(l := False)),
                   consents := (consents s)(?u := (consents s ?u)
                      \<lparr> dc_authorizedLenders := remove_lender 0 ?xs l \<rparr>),
                   reg_log := reg_log s @ [LenderAccessRevoked ?u l] \<rparr>"
    by (auto simp: revokeLenderAccess_def split: if_splits)
  show ?thesis
    unfolding lenders_consistent_def
  proof (intro allI conjI)
    fix user
    show "distinct (dc_authorizedLenders (consents s' user))"
      using inv rm by (simp add: s' lenders_consistent_def)
    fix lender
    show "(lender \<in> set (dc_authorizedLenders (consents s' user))) = lenderAccess s' user lender"
      using inv rm by (auto simp: s' lenders_consistent_def)
  qed
qed

lemma lenders_consistent_frame:
  "consents s' = consents s \<Longrightarrow> lenderAccess s' = lenderAccess s \<Longrightarrow>
   lenders_consistent s \<Longrightarrow> lenders_consistent s'"
  by (simp add: lenders_consistent_def)

lemma consent_consistent:
  assumes "lenders_consistent s" "updateConsent e s h t = Inr s'"
  shows "lenders_consistent s'"
  using assms unfolding lenders_consistent_def updateConsent_def
  by (auto split: if_splits sum.splits)

lemma registry_other_frame:
  "updateScore e s u v = Inr s' \<Longrightarrow> consents s' = consents s \<and> lenderAccess s' = lenderAccess s"
  "updateScoreFactors e s u a b c d f = Inr s' \<Longrightarrow> consents s' = consents s \<and> lenderAccess s' = lenderAccess s"
  "batchUpdateScores e s us vs = Inr s' \<Longrightarrow> consents s' = consents s \<and> lenderAccess s' = lenderAccess s"
  "pause e s = Inr s' \<Longrightarrow> consents s' = consents s \<and> lenderAccess s' = lenderAccess s"
  "unpause e s = Inr s' \<Longrightarrow> consents s' = consents s \<and> lenderAccess s' = lenderAccess s"
  "grantOracleRole e s x = Inr s' \<Longrightarrow> consents s' = consents s \<and> lenderAccess s' = lenderAccess s"
  "grantLenderRole e s x = Inr s' \<Longrightarrow> consents s' = consents s \<and> lenderAccess s' = lenderAccess s"
  "reg_grantRole e s r x = Inr s' \<Longrightarrow> consents s' = consents s \<and> lenderAccess s' = lenderAccess s"
  "reg_revokeRole e s r x = Inr s' \<Longrightarrow> consents s' = consents s \<and> lenderAccess s' = lenderAccess s"
  "reg_renounceRole e s r x = Inr s' \<Longrightarrow> consents s' = consents s \<and> lenderAccess s' = lenderAccess s"
  by (auto simp: updateScore_def updateScoreFactors_def batchUpdateScores_def pause_def unpause_def
        grantOracleRole_def grantLenderRole_def reg_grantRole_def reg_revokeRole_def
        reg_renounceRole_def split: if_splits sum.splits dest: batch_loop_frame)

lemma registry_exec_consistent:
  assumes inv: "lenders_consistent s" and ex: "registry_exec e s c = Inr s'"
  shows "lenders_consistent s'"
proof (cases c)
  case (GrantLenderAccess l)
  with inv ex show ?thesis by (auto intro: grant_consistent)
next
  case (RevokeLenderAccess l)
  with inv ex show ?thesis by (auto intro: revoke_consistent)
next
  case (UpdateConsent h t)
  with inv ex show ?thesis by (auto intro: consent_consistent)
qed (use inv ex in \<open>auto dest!: registry_other_frame intro: lenders_consistent_frame\<close>)

lemma registry_run_consistent:
  "lenders_consistent s \<Longrightarrow> lenders_consistent (registry_run s txs)"
proof (induction txs arbitrary: s)
  case Nil
  then show ?case by simp
next
  case (Cons tx txs)
  obtain e c where tx: "tx = (e, c)" by (cases tx)
  have "lenders_consistent (ledger_after s (registry_exec e s c))"
    using Cons.prems by (auto simp: ledger_after_def split: sum.splits intro: registry_exec_consistent)
  with Cons.IH tx show ?case by simp
qed

text \<open>
  C10. In every state the registry can be in, each user's list of authorized lenders
  holds exactly the lenders whose access flag is set for that user, and holds none of
  them twice: this is so after the constructor, and every state-changing function of
  the registry that returns keeps it so (an aborted one changes nothing). Granting
  appends a lender whose flag was clear, revoking removes the one entry of a lender
  whose flag was set by moving the last entry into its place.
\<close>

theorem lenders_consistent_preserved:
  "lenders_consistent (registry_init deployer) \<and>
   (lenders_consistent s \<and> registry_exec e s c = Inr s' \<longrightarrow> lenders_consistent s')"
  using lenders_consistent_init registry_exec_consistent by blast

text \<open>
  The invariant at work: user 2 grants lender 5, grants lender 6, revokes lender 5 and
  grants lender 5 again; the list is then 6, 5 with 5 in it once.
\<close>

lemma grant_revoke_grant:
  "dc_authorizedLenders (consents
     (registry_run (registry_init 1)
        [(call_env 2 0 1000, GrantLenderAccess 5), (call_env 2 0 1001, GrantLenderAccess 6),
         (call_env 2 0 1002, RevokeLenderAccess 5), (call_env 2 0 1003, GrantLenderAccess 5)]) 2)
   = [6, 5]"
  by (simp add: registry_init_def call_env_def ledger_after_def grantLenderAccess_def
      revokeLenderAccess_def remove_lender.simps)

theorem lenders_consistent_preserved_witness:
  "lenders_consistent (registry_init 1)
   \<and> (\<exists>s'. registry_exec (call_env 2 0 1000) (registry_init 1) (GrantLenderAccess 5) = Inr s'
          \<and> dc_authorizedLenders (consents s' 2) = [5] \<and> lenderAccess s' 2 5
          \<and> lenders_consistent s')
   \<and> lenders_consistent three_lenders
   \<and> dc_authorizedLenders (consents three_lenders 2) = [5, 6, 7]
   \<and> (\<exists>s'. registry_exec (call_env 2 0 2000) three_lenders (RevokeLenderAccess 5) = Inr s'
          \<and> dc_authorizedLenders (consents s' 2) = [7, 6] \<and> \<not> lenderAccess s' 2 5
          \<and> lenders_consistent s')"
proof -
  let ?s1 = "ledger_after (registry_init 1)
               (registry_exec (call_env 2 0 1000) (registry_init 1) (GrantLenderAccess 5))"
  have ex1: "registry_exec (call_env 2 0 1000) (registry_init 1) (GrantLenderAccess 5) = Inr ?s1"
    by (simp add: registry_init_def call_env_def ledger_after_def grantLenderAccess_def)
  have l1: "dc_authorizedLenders (consents ?s1 2) = [5]" "lenderAccess ?s1 2 5"
    by (simp_all add: registry_init_def call_env_def ledger_after_def grantLenderAccess_def)
  note step1 = lenders_consistent_preserved[of 1 "registry_init 1" "call_env 2 0 1000"
      "GrantLenderAccess 5" ?s1]
  from step1 ex1 have c1: "lenders_consistent ?s1" by blast
  have c3: "lenders_consistent three_lenders"
    unfolding three_lenders_def using step1 by (blast intro: registry_run_consistent)
  have l3: "dc_authorizedLenders (consents three_lenders 2) = [5, 6, 7]"
    by (simp add: three_lenders_def registry_init_def call_env_def ledger_after_def
        grantLenderAccess_def)
  let ?s2 = "ledger_after three_lenders
               (registry_exec (call_env 2 0 2000) three_lenders (RevokeLenderAccess 5))"
  have ex2: "registry_exec (call_env 2 0 2000) three_lenders (RevokeLenderAccess 5) = Inr ?s2"
    by (simp add: three_lenders_def registry_init_def call_env_def ledger_after_def
        grantLenderAccess_def revokeLenderAccess_def)
  have l2: "dc_authorizedLenders (consents ?s2 2) = [7, 6]" "\<not> lenderAccess ?s2 2 5"
    by (simp_all add: three_lenders_def registry_init_def call_env_def ledger_after_def
        grantLenderAccess_def revokeLenderAccess_def remove_lender.simps)
  note step2 = lenders_consistent_preserved[of 1 three_lenders "call_env 2 0 2000"
      "RevokeLenderAccess 5" ?s2]
  from step2 c3 ex2 have c2: "lenders_consistent ?s2" by blast
  from step1 ex1 l1 c1 c3 l3 ex2 l2 c2 show ?thesis by blast
qed

subsection \<open>When updateScore succeeds\<close>

text \<open>
  C4, as the code has it. \<open>updateScore(u, s)\<close> returns exactly when the call carries no
  ether (the function is not payable), the caller holds the oracle role, the registry is
  not paused, \<open>u\<close> is not the zero address, the score lies in 300..850 and the user's
  version counter can still be incremented; it then stores the score, marks it active
  and bumps the version. In every other case it aborts with an error and the state is
  unchanged.
\<close>

theorem updateScore_succeeds_iff:
  "(msg_value e = 0 \<and> reg_roles s ORACLE_ROLE (msg_sender e) \<and> \<not> reg_paused s \<and> user \<noteq> 0
      \<and> 300 \<le> score \<and> score \<le> 850 \<and> cs_version (scores s user) < MAX_UINT256
    \<longrightarrow> (\<exists>s'. updateScore e s user score = Inr s'
             \<and> cs_score (scores s' user) = score \<and> cs_isActive (scores s' user)
             \<and> cs_version (scores s' user) = cs_version (scores s user) + 1))
   \<and> (\<not> (msg_value e = 0 \<and> reg_roles s ORACLE_ROLE (msg_sender e) \<and> \<not> reg_paused s \<and> user \<noteq> 0
          \<and> 300 \<le> score \<and> score \<le> 850 \<and> cs_version (scores s user) < MAX_UINT256)
    \<longrightarrow> (\<exists>err. updateScore e s user score = Inl err)
        \<and> ledger_after s (updateScore e s user score) = s)"
  by (auto simp: updateScore_def checked_add_def ledger_after_def)

theorem updateScore_succeeds_iff_witness:
  "(\<exists>s'. updateScore (call_env 1 0 1000) (registry_init 1) 2 700 = Inr s'
         \<and> cs_score (scores s' 2) = 700 \<and> cs_isActive (scores s' 2)
         \<and> cs_version (scores s' 2) = 1)
   \<and> (\<exists>err. updateScore (call_env 1 0 1000) (registry_init 1) 2 851 = Inl err)
   \<and> ledger_after (registry_init 1) (updateScore (call_env 1 0 1000) (registry_init 1) 2 851)
       = registry_init 1
   \<and> (\<exists>err. updateScore (call_env 1 5 1000) (registry_init 1) 2 700 = Inl err)
   \<and> ledger_after (registry_init 1) (updateScore (call_env 1 5 1000) (registry_init 1) 2 700)
       = registry_init 1"
  using updateScore_succeeds_iff[of "call_env 1 0 1000" "registry_init 1" 2 700]
        updateScore_succeeds_iff[of "call_env 1 0 1000" "registry_init 1" 2 851]
        updateScore_succeeds_iff[of "call_env 1 5 1000" "registry_init 1" 2 700]
  by (simp add: registry_init_def call_env_def MAX_UINT256_def)

text \<open>
  The claim as the spec states it fails: on a paused registry the deployer, who holds
  the oracle role, is refused a score of 700.
\<close>

theorem updateScore_iff_counterexample:
  "pause (call_env 1 0 1000) (registry_init 1) = Inr paused_registry
   \<and> reg_roles paused_registry ORACLE_ROLE (msg_sender (call_env 1 0 2000))
   \<and> msg_value (call_env 1 0 2000) = 0
   \<and> (300::nat) \<le> 700 \<and> (700::nat) \<le> 850
   \<and> updateScore (call_env 1 0 2000) paused_registry 2 700 = Inl (Revert ''Pausable: paused'')"
  by (simp add: pause_def updateScore_def paused_registry_def registry_init_def call_env_def)


section \<open>Theorems: LenderPortal\<close>

subsection \<open>Decisioning\<close>






lemmas portal_eval =
  submitCreditRequest_def submitBatchRequest_def processCreditRequest_def processBatchRequest_def
  decide_def new_request_def getScore_def checked_add_def checked_mul_def MAX_UINT256_def
  ready_portal_def portal_init_def scored_registry_def registry_init_def call_env_def
  ledger_after_def updateScore_def grantLenderRole_def set_role_def days30_def ether_def Let_def

lemma score_700: "getScore 9 (scored_registry 700) 7 = Inr 700"
  by (simp add: portal_eval)

lemma score_none: "getScore 9 (scored_registry 0) 7 = Inl (Revert ''No active score found'')"
  by (simp add: portal_eval)



text \<open>
  C3 on the code. Lender 3 has used all 100 requests of a window that ended at time
  2593000 (30 days after a grant at time 1000). At time 5000000 the claim has both
  calls succeed on a fresh window; the code
  refuses both, since \<^verbatim>\<open>submitCreditRequest\<close> checks the stored counter before it
  resets the window and \<^verbatim>\<open>submitBatchRequest\<close> never resets it.
\<close>

theorem quota_reset_not_applied:
  "aa_resetTime (apiAccess (ready_portal 100 2593000 500) 3) \<le> block_timestamp (call_env 3 (10 ^ 16) 5000000)
   \<and> submitCreditRequest (scored_registry 700) 9 (call_env 3 (10 ^ 16) 5000000)
        (ready_portal 100 2593000 500) 7 1000 = Inl (Revert ''Request limit exceeded'')
   \<and> submitBatchRequest (scored_registry 700) 9 (call_env 3 (10 ^ 16) 5000000)
        (ready_portal 100 2593000 500) [7] [1000] = Inl (Revert ''Request limit exceeded'')"
  by (simp add: portal_eval)


subsection \<open>Batches are processed whole or not at all\<close>

lemma processCreditRequest_frame:
  assumes "processCreditRequest reg self s rid = Inr s'"
  shows "nextRequestId s' = nextRequestId s \<and> batchRequests s' = batchRequests s
       \<and> nextBatchId s' = nextBatchId s
       \<and> (\<forall>k. k \<noteq> rid \<longrightarrow> creditRequests s' k = creditRequests s k)
       \<and> cr_isProcessed (creditRequests s' rid)"
  using assms
  unfolding processCreditRequest_def Let_def
  by (auto split: if_splits sum.splits prod.splits)

lemma process_items_result:
  "process_items reg self e s bid i bs = Inr s' \<Longrightarrow>
     nextRequestId s' = nextRequestId s + length bs
     \<and> nextBatchId s' = nextBatchId s
     \<and> br_processedCount (batchRequests s' bid)
          = br_processedCount (batchRequests s bid) + length bs
     \<and> (\<forall>k. k < nextRequestId s \<longrightarrow> creditRequests s' k = creditRequests s k)
     \<and> (\<forall>k. nextRequestId s \<le> k \<and> k < nextRequestId s + length bs
            \<longrightarrow> cr_isProcessed (creditRequests s' k))"
proof (induction bs arbitrary: s i)
  case Nil
  then show ?case by auto
next
  case (Cons b bs)
  let ?batch = "batchRequests s bid"
  let ?rid = "nextRequestId s"
  let ?s1 = "s\<lparr> nextRequestId := nextRequestId s + 1,
               creditRequests := (creditRequests s)(?rid :=
                  new_request ?rid (br_lender ?batch) b (br_requestedAmounts ?batch ! i)
                    (block_timestamp e)),
               lenderRequests := (lenderRequests s)(br_lender ?batch :=
                  lenderRequests s (br_lender ?batch) @ [?rid]) \<rparr>"
  from Cons.prems obtain s2 where
    p: "processCreditRequest reg self ?s1 ?rid = Inr s2"
    and r: "process_items reg self e
              (s2\<lparr> batchRequests := (batchRequests s2)(bid := (batchRequests s2 bid)
                     \<lparr> br_processedCount := br_processedCount (batchRequests s2 bid) + 1 \<rparr>) \<rparr>)
              bid (i + 1) bs = Inr s'"
    by (auto simp: Let_def checked_add_def split: if_splits sum.splits)
  let ?s3 = "s2\<lparr> batchRequests := (batchRequests s2)(bid := (batchRequests s2 bid)
                     \<lparr> br_processedCount := br_processedCount (batchRequests s2 bid) + 1 \<rparr>) \<rparr>"
  note f = processCreditRequest_frame[OF p]
  note ih = Cons.IH[OF r]
  have n3: "nextRequestId ?s3 = nextRequestId s + 1" using f by simp
  have b3: "br_processedCount (batchRequests ?s3 bid) = br_processedCount ?batch + 1"
    using f by simp
  have c3: "\<forall>k. k < nextRequestId s \<longrightarrow> creditRequests ?s3 k = creditRequests s k"
    using f by simp
  have d3: "cr_isProcessed (creditRequests ?s3 ?rid)" using f by simp
  show ?case
  proof (intro conjI allI impI)
    show "nextRequestId s' = nextRequestId s + length (b # bs)" using ih n3 by simp
    show "nextBatchId s' = nextBatchId s" using ih f by simp
    show "br_processedCount (batchRequests s' bid)
            = br_processedCount ?batch + length (b # bs)"
      using ih b3 by simp
  next
    fix k assume "k < nextRequestId s"
    then show "creditRequests s' k = creditRequests s k" using ih n3 c3 by simp
  next
    fix k assume k: "nextRequestId s \<le> k \<and> k < nextRequestId s + length (b # bs)"
    show "cr_isProcessed (creditRequests s' k)"
    proof (cases "k = nextRequestId s")
      case True
      then have "creditRequests s' k = creditRequests ?s3 k" using ih n3 by simp
      with d3 True show ?thesis by simp
    next
      case False
      with k have "nextRequestId ?s3 \<le> k \<and> k < nextRequestId ?s3 + length bs"
        using n3 by simp
      with ih show ?thesis by blast
    qed
  qed
qed

lemma processBatchRequest_result:
  assumes "processBatchRequest reg self e s bid = Inr s'"
  shows "nextRequestId s' = nextRequestId s + length (br_borrowers (batchRequests s bid))
       \<and> nextBatchId s' = nextBatchId s
       \<and> br_isProcessed (batchRequests s' bid)
       \<and> br_processedCount (batchRequests s' bid)
            = br_processedCount (batchRequests s bid) + length (br_borrowers (batchRequests s bid))
       \<and> (\<forall>k. nextRequestId s \<le> k \<and> k < nextRequestId s' \<longrightarrow> cr_isProcessed (creditRequests s' k))"
proof -
  from assms obtain s1 where
    r: "process_items reg self e s bid 0 (br_borrowers (batchRequests s bid)) = Inr s1"
    and s': "s' = s1\<lparr> batchRequests := (batchRequests s1)(bid :=
                        (batchRequests s1 bid)\<lparr> br_isProcessed := True \<rparr>),
                     lenders := (lenders s1)(br_lender (batchRequests s1 bid) :=
                        (lenders s1 (br_lender (batchRequests s1 bid)))
                          \<lparr> li_totalRequests :=
                              li_totalRequests (lenders s1 (br_lender (batchRequests s1 bid)))
                              + length (br_borrowers (batchRequests s1 bid)) \<rparr>) \<rparr>"
    unfolding processBatchRequest_def Let_def checked_add_def
    by (auto split: if_splits sum.splits)
  note res = process_items_result[OF r]
  show ?thesis using res by (simp add: s')
qed

text \<open>
  C6. A call of \<^verbatim>\<open>submitBatchRequest\<close> whose arrays differ in length, whose batch
  is larger than 100, whose fee is below the per-request fee times the count, or whose
  count does not fit the remaining quota aborts, and the ledger is as before: no
  request record, no batch record, no counter has changed. A call that returns has
  processed the whole batch: the batch is stored under the returned id, marked
  processed with a processed count equal to the number of borrowers, and exactly that
  many request ids were handed out, each to a processed request.
\<close>

theorem submitBatchRequest_all_or_nothing:
  "((length borrowers \<noteq> length amounts \<or> 100 < length borrowers
       \<or> msg_value e < apiRequestFee s * length borrowers
       \<or> aa_requestLimit (apiAccess s (msg_sender e))
            < aa_requestsUsed (apiAccess s (msg_sender e)) + length borrowers)
     \<longrightarrow> (\<exists>err. submitBatchRequest reg self e s borrowers amounts = Inl err)
         \<and> ledger_after_call s (submitBatchRequest reg self e s borrowers amounts) = s)
   \<and> (lp_roles s APPROVED_LENDER_ROLE (msg_sender e) \<and> length borrowers \<noteq> length amounts
     \<longrightarrow> submitBatchRequest reg self e s borrowers amounts = Inl (Revert ''Array length mismatch''))
   \<and> (submitBatchRequest reg self e s borrowers amounts = Inr (s', bid)
     \<longrightarrow> bid = nextBatchId s
         \<and> br_isProcessed (batchRequests s' bid)
         \<and> br_processedCount (batchRequests s' bid) = length borrowers
         \<and> nextRequestId s' = nextRequestId s + length borrowers
         \<and> (\<forall>k. nextRequestId s \<le> k \<and> k < nextRequestId s'
                \<longrightarrow> cr_isProcessed (creditRequests s' k)))"
proof (intro conjI impI)
  assume bad: "length borrowers \<noteq> length amounts \<or> 100 < length borrowers
       \<or> msg_value e < apiRequestFee s * length borrowers
       \<or> aa_requestLimit (apiAccess s (msg_sender e))
            < aa_requestsUsed (apiAccess s (msg_sender e)) + length borrowers"
  then show "\<exists>err. submitBatchRequest reg self e s borrowers amounts = Inl err"
    unfolding submitBatchRequest_def Let_def checked_add_def checked_mul_def
    by (auto split: sum.splits)
  then show "ledger_after_call s (submitBatchRequest reg self e s borrowers amounts) = s"
    by (auto simp: ledger_after_call_def)
next
  assume "lp_roles s APPROVED_LENDER_ROLE (msg_sender e) \<and> length borrowers \<noteq> length amounts"
  then show "submitBatchRequest reg self e s borrowers amounts = Inl (Revert ''Array length mismatch'')"
    by (simp add: submitBatchRequest_def)
next
  assume ok: "submitBatchRequest reg self e s borrowers amounts = Inr (s', bid)"
  let ?a = "apiAccess s (msg_sender e)"
  let ?s1 = "s\<lparr> nextBatchId := nextBatchId s + 1,
               batchRequests := (batchRequests s)(nextBatchId s :=
                  \<lparr> br_batchId = nextBatchId s, br_lender = msg_sender e, br_borrowers = borrowers,
                    br_requestedAmounts = amounts, br_timestamp = block_timestamp e,
                    br_isProcessed = False, br_processedCount = 0 \<rparr>),
               apiAccess := (apiAccess s)(msg_sender e :=
                  ?a\<lparr> aa_requestsUsed := aa_requestsUsed ?a + length borrowers \<rparr>),
               lp_balance := lp_balance s + msg_value e,
               lp_log := lp_log s @ [BatchRequestSubmitted (nextBatchId s) (msg_sender e)
                                       (length borrowers)] \<rparr>"
  from ok have bid: "bid = nextBatchId s"
    and p: "processBatchRequest reg self e ?s1 bid = Inr s'"
    unfolding submitBatchRequest_def Let_def checked_add_def checked_mul_def
    by (auto split: if_splits sum.splits)
  note res = processBatchRequest_result[OF p]
  show "bid = nextBatchId s" by (rule bid)
  show "br_isProcessed (batchRequests s' bid)" using res by simp
  show "br_processedCount (batchRequests s' bid) = length borrowers" using res bid by simp
  show "nextRequestId s' = nextRequestId s + length borrowers" using res bid by simp
  show "\<forall>k. nextRequestId s \<le> k \<and> k < nextRequestId s' \<longrightarrow> cr_isProcessed (creditRequests s' k)"
    using res by simp
qed

theorem submitBatchRequest_all_or_nothing_witness:
  "submitBatchRequest (scored_registry 700) 9 (call_env 3 (10 ^ 17) 1000)
      (ready_portal 0 5000000 500) [7, 8] [1000]
     = Inl (Revert ''Array length mismatch'')
   \<and> ledger_after_call (ready_portal 0 5000000 500)
        (submitBatchRequest (scored_registry 700) 9 (call_env 3 (10 ^ 17) 1000)
           (ready_portal 0 5000000 500) [7, 8] [1000])
     = ready_portal 0 5000000 500
   \<and> (\<exists>s'. submitBatchRequest (scored_registry 700) 9 (call_env 3 (10 ^ 17) 1000)
              (ready_portal 0 5000000 500) [7, 8] [1000, 2000] = Inr (s', 1)
          \<and> br_isProcessed (batchRequests s' 1)
          \<and> br_processedCount (batchRequests s' 1) = 2
          \<and> nextRequestId s' = 3
          \<and> cr_isProcessed (creditRequests s' 1) \<and> cr_isProcessed (creditRequests s' 2))"
proof -
  let ?reg = "scored_registry 700" and ?e = "call_env 3 (10 ^ 17) 1000"
    and ?s = "ready_portal 0 5000000 500"
  have role: "lp_roles ?s APPROVED_LENDER_ROLE (msg_sender ?e)"
    by (simp add: ready_portal_def portal_init_def set_role_def call_env_def)
  have n: "nextRequestId ?s = 1" "nextBatchId ?s = 1"
    by (simp_all add: ready_portal_def portal_init_def)
  note bad = submitBatchRequest_all_or_nothing[of "[7, 8]" "[1000]" ?e ?s ?reg 9 ?s 1]
  from bad role have b1: "submitBatchRequest ?reg 9 ?e ?s [7, 8] [1000]
      = Inl (Revert ''Array length mismatch'')"
    by simp
  from bad have b2: "ledger_after_call ?s (submitBatchRequest ?reg 9 ?e ?s [7, 8] [1000]) = ?s"
    by simp
  have ok: "\<exists>s'. submitBatchRequest ?reg 9 ?e ?s [7, 8] [1000, 2000] = Inr (s', 1)"
    by (simp add: portal_eval)
  then obtain s' where s': "submitBatchRequest ?reg 9 ?e ?s [7, 8] [1000, 2000] = Inr (s', 1)" ..
  note good = submitBatchRequest_all_or_nothing[of "[7, 8]" "[1000, 2000]" ?e ?s ?reg 9 s' 1]
  from good s' n have g: "br_isProcessed (batchRequests s' 1)
      \<and> br_processedCount (batchRequests s' 1) = 2 \<and> nextRequestId s' = 3
      \<and> (\<forall>k. 1 \<le> k \<and> k < 3 \<longrightarrow> cr_isProcessed (creditRequests s' k))"
    by simp
  then have "cr_isProcessed (creditRequests s' 1) \<and> cr_isProcessed (creditRequests s' 2)"
    by simp
  with g s' b1 b2 show ?thesis by blast
qed


section \<open>Theorems: DataMarketplace\<close>

subsection \<open>One purchase per buyer and product\<close>

lemma purchaseProduct_effect:
  assumes "purchaseProduct keccak e s pid = Inr (s1, k)"
  shows "dp_totalSales (products s1 pid) = dp_totalSales (products s pid) + 1
       \<and> hasPurchased s1 (msg_sender e) pid
       \<and> \<not> hasPurchased s (msg_sender e) pid
       \<and> dp_isActive (products s1 pid)
       \<and> dp_seller (products s1 pid) \<noteq> msg_sender e
       \<and> k = nextPurchaseId s"
  using assms
  unfolding purchaseProduct_def Let_def checked_add_def
  by (auto split: if_splits sum.splits)

text \<open>
  C7. After a purchase that returned, the buyer's next purchase of the same product
  aborts, with \<^verbatim>\<open>"Already purchased"\<close> (or, if the call carries ether, because the
  function is not payable), and leaves the ledger as the first purchase left it, so the
  product's sales counter stands one above its value before the two calls.
\<close>

theorem purchaseProduct_once:
  "purchaseProduct keccak e s pid = Inr (s1, k) \<and> msg_sender e2 = msg_sender e \<longrightarrow>
     dp_totalSales (products s1 pid) = dp_totalSales (products s pid) + 1
     \<and> purchaseProduct keccak2 e2 s1 pid
         = Inl (if msg_value e2 = 0 then Revert ''Already purchased'' else NotPayable)
     \<and> ledger_after_call s1 (purchaseProduct keccak2 e2 s1 pid) = s1
     \<and> dp_totalSales (products (ledger_after_call s1 (purchaseProduct keccak2 e2 s1 pid)) pid)
         = dp_totalSales (products s pid) + 1"
proof
  assume a: "purchaseProduct keccak e s pid = Inr (s1, k) \<and> msg_sender e2 = msg_sender e"
  then have p: "purchaseProduct keccak e s pid = Inr (s1, k)" and e2: "msg_sender e2 = msg_sender e"
    by simp_all
  note f = purchaseProduct_effect[OF p]
  have second: "purchaseProduct keccak2 e2 s1 pid
         = Inl (if msg_value e2 = 0 then Revert ''Already purchased'' else NotPayable)"
    using f e2 by (simp add: purchaseProduct_def Let_def)
  then have "ledger_after_call s1 (purchaseProduct keccak2 e2 s1 pid) = s1"
    by (simp add: ledger_after_call_def)
  with f second show "dp_totalSales (products s1 pid) = dp_totalSales (products s pid) + 1
     \<and> purchaseProduct keccak2 e2 s1 pid
         = Inl (if msg_value e2 = 0 then Revert ''Already purchased'' else NotPayable)
     \<and> ledger_after_call s1 (purchaseProduct keccak2 e2 s1 pid) = s1
     \<and> dp_totalSales (products (ledger_after_call s1 (purchaseProduct keccak2 e2 s1 pid)) pid)
         = dp_totalSales (products s pid) + 1"
    by simp
qed

lemmas market_eval =
  listed_market_def purchased_market_def market_init_def call_env_def ledger_after_def
  ledger_after_call_def listProduct_def purchaseProduct_def submitReview_def
  checked_add_def checked_mul_def checked_sub_def checked_div_def checked_mul8_def
  MAX_UINT256_def Let_def

theorem purchaseProduct_once_witness:
  "(\<exists>s1. purchaseProduct (\<lambda>buyer product now. 1) (call_env 4 0 2000) listed_market 1 = Inr (s1, 1)
         \<and> dp_totalSales (products listed_market 1) = 0
         \<and> dp_totalSales (products s1 1) = 1
         \<and> purchaseProduct (\<lambda>buyer product now. 2) (call_env 4 0 3000) s1 1
              = Inl (Revert ''Already purchased'')
         \<and> dp_totalSales (products
              (ledger_after_call s1 (purchaseProduct (\<lambda>buyer product now. 2) (call_env 4 0 3000) s1 1)) 1)
            = 1)"
proof -
  have "\<exists>s1. purchaseProduct (\<lambda>buyer product now. 1) (call_env 4 0 2000) listed_market 1 = Inr (s1, 1)"
    by (simp add: market_eval)
  then obtain s1 where
    s1: "purchaseProduct (\<lambda>buyer product now. 1) (call_env 4 0 2000) listed_market 1 = Inr (s1, 1)" ..
  have z: "dp_totalSales (products listed_market 1) = 0" by (simp add: market_eval)
  have e: "msg_sender (call_env 4 0 3000) = msg_sender (call_env 4 0 2000)"
    "msg_value (call_env 4 0 3000) = 0"
    by (simp_all add: call_env_def)
  from purchaseProduct_once[of "\<lambda>buyer product now. 1" "call_env 4 0 2000" listed_market 1 s1 1
      "call_env 4 0 3000" "\<lambda>buyer product now. 2"] s1 e z
  show ?thesis by auto
qed

subsection \<open>Reviews and the running average\<close>

lemma not_reviewed_iff:
  "(not_reviewed rs a = Inr ()) = (a \<notin> rv_reviewer ` set rs)"
  by (induction rs) auto

lemma not_reviewed_fails:
  "a \<in> rv_reviewer ` set rs \<Longrightarrow> not_reviewed rs a = Inl (Revert ''Already reviewed'')"
  by (induction rs) auto

text \<open>
  What a review that returns does: the stored average becomes the truncated quotient
  the spec gives, the count goes up by one and the reviewer is on the product's list.
  Such a review carries one or two stars.
\<close>

lemma submitReview_effect:
  assumes "submitReview e s pid rating comment = Inr s'"
  shows "dp_rating (products s' pid)
           = (dp_rating (products s pid) * dp_reviewCount (products s pid) + unat rating * 100)
               div (dp_reviewCount (products s pid) + 1)
       \<and> dp_reviewCount (products s' pid) = dp_reviewCount (products s pid) + 1
       \<and> unat rating \<le> 2
       \<and> msg_sender e \<in> rv_reviewer ` set (productReviews s' pid)
       \<and> hasPurchased s' = hasPurchased s"
proof -
  from assms have m: "unat rating * unat (100 :: 8 word) \<le> 255"
    unfolding submitReview_def Let_def checked_mul8_def
    by (auto split: if_splits sum.splits)
  then have small: "unat rating \<le> 2" by simp
  have "unat (rating * 100) = unat rating * 100"
    using m by (simp add: unat_mult_lem [THEN iffD1] unat_word_ariths)
  with assms small show ?thesis
    unfolding submitReview_def Let_def checked_mul8_def checked_mul_def checked_add_def
      checked_div_def
    by (auto split: if_splits sum.splits)
qed

lemma submitReview_again_fails:
  assumes "msg_sender e \<in> rv_reviewer ` set (productReviews s pid)"
  shows "\<exists>err. submitReview e s pid rating comment = Inl err"
  using not_reviewed_fails[OF assms]
  unfolding submitReview_def Let_def
  by (auto split: sum.splits)

text \<open>A review of three stars or more never returns.\<close>

lemma submitReview_three_stars_abort:
  assumes "3 \<le> rating"
  shows "\<exists>err. submitReview e s pid rating comment = Inl err"
proof -
  from assms have "3 \<le> unat rating" by (simp add: word_le_nat_alt)
  then have "\<not> unat rating * unat (100 :: 8 word) \<le> 255" by simp
  then show ?thesis
    unfolding submitReview_def Let_def checked_mul8_def
    by (auto split: sum.splits)
qed

text \<open>
  C8 on the code. Buyer 4 has bought product 1, which has no review yet. The first
  review sets the rating to 100 times the stars only for one and two stars; with
  three, four or five stars the multiplication \<^verbatim>\<open>rating * 100\<close> overflows the
  \<^verbatim>\<open>uint8\<close> it is computed in, and the call aborts with \<^verbatim>\<open>Panic(0x11)\<close>.
\<close>

theorem submitReview_stars_overflow:
  "hasPurchased purchased_market 4 1
   \<and> productReviews purchased_market 1 = []
   \<and> dp_rating (products purchased_market 1) = 0
   \<and> dp_reviewCount (products purchased_market 1) = 0
   \<and> submitReview (call_env 4 0 3000) purchased_market 1 5 ''Excellent'' = Inl (Panic 17)
   \<and> submitReview (call_env 4 0 3000) purchased_market 1 4 ''Good'' = Inl (Panic 17)
   \<and> submitReview (call_env 4 0 3000) purchased_market 1 3 ''Fair'' = Inl (Panic 17)
   \<and> (case submitReview (call_env 4 0 3000) purchased_market 1 2 ''Poor'' of
         Inl err \<Rightarrow> False
       | Inr s' \<Rightarrow> dp_rating (products s' 1) = 200 \<and> dp_reviewCount (products s' 1) = 1)"
  by (simp add: market_eval)


section \<open>Theorems: FederatedLearningCoordinator\<close>

lemmas coordinator_eval =
  round_with_update_def coordinator_init_def zero_update_def call_env_def ledger_after_def
  registerNode_def startTrainingRound_def submitModelUpdate_def validateModelUpdate_def
  aggregateModel_def distributeRewards_def fl_grantRole_def set_role_def
  checked_add_def checked_div_def MAX_UINT256_def Let_def

subsection \<open>Validating an update twice\<close>

lemma round_with_update_facts:
  "currentRound (round_with_update q) = 1"
  "fl_roles (round_with_update q) VALIDATOR_ROLE 8"
  "fl_roles (round_with_update q) AGGREGATOR_ROLE 1"
  "0 < q \<Longrightarrow> q \<le> 5 \<Longrightarrow> tr_participants (trainingRounds (round_with_update q) 1) 4"
  "0 < q \<Longrightarrow> q \<le> 5 \<Longrightarrow> tr_currentParticipants (trainingRounds (round_with_update q) 1) = 1"
  "0 < q \<Longrightarrow> q \<le> 5 \<Longrightarrow> tr_minParticipants (trainingRounds (round_with_update q) 1) = q"
  "0 < q \<Longrightarrow> q \<le> 5 \<Longrightarrow> tr_endTime (trainingRounds (round_with_update q) 1) = 1120"
  "0 < q \<Longrightarrow> q \<le> 5 \<Longrightarrow> tr_isActive (trainingRounds (round_with_update q) 1)"
  "ni_reputation (nodes (round_with_update q) 4) = 100"
  by (simp_all add: coordinator_eval)

text \<open>
  C2 on the code. Node 4 took part in round 1 and stands at reputation 100. The
  validator rejects its update twice: both calls return, and the reputation goes to 80
  and then to 60. After a rejection an acceptance returns as well. Only after an
  acceptance does a second call abort with \<^verbatim>\<open>"Already validated"\<close>.
\<close>

theorem validateModelUpdate_twice:
  "tr_participants (trainingRounds (round_with_update 1) (currentRound (round_with_update 1))) 4
   \<and> ni_reputation (nodes (round_with_update 1) 4) = 100
   \<and> (case validateModelUpdate (call_env 8 0 200) (round_with_update 1) 4 False of
         Inl err \<Rightarrow> False
       | Inr s1 \<Rightarrow>
           ni_reputation (nodes s1 4) = 80
           \<and> (case validateModelUpdate (call_env 8 0 300) s1 4 False of
                 Inl err \<Rightarrow> False
               | Inr s2 \<Rightarrow> ni_reputation (nodes s2 4) = 60)
           \<and> (case validateModelUpdate (call_env 8 0 300) s1 4 True of
                 Inl err \<Rightarrow> False
               | Inr s2 \<Rightarrow> ni_reputation (nodes s2 4) = 90))
   \<and> (case validateModelUpdate (call_env 8 0 200) (round_with_update 1) 4 True of
         Inl err \<Rightarrow> False
       | Inr s1 \<Rightarrow>
           ni_reputation (nodes s1 4) = 110
           \<and> validateModelUpdate (call_env 8 0 300) s1 4 False = Inl (Revert ''Already validated'')
           \<and> validateModelUpdate (call_env 8 0 300) s1 4 True = Inl (Revert ''Already validated''))"
  by (simp add: coordinator_eval)

text \<open>The two branches in general.\<close>

lemma validate_accept_then_locked:
  assumes "validateModelUpdate e s node True = Inr s'"
    and "fl_roles s VALIDATOR_ROLE (msg_sender e2)" and "msg_value e2 = 0"
  shows "validateModelUpdate e2 s' node verdict = Inl (Revert ''Already validated'')"
  using assms
  unfolding validateModelUpdate_def Let_def
  by (auto split: if_splits sum.splits)

lemma validate_reject_not_locked:
  assumes "validateModelUpdate e s node False = Inr s'" and "msg_value e2 = 0"
  shows "validateModelUpdate e2 s' node False
           = (if fl_roles s VALIDATOR_ROLE (msg_sender e2)
              then Inr (s'\<lparr> nodes := (nodes s')(node := (nodes s' node)
                              \<lparr> ni_reputation := (if ni_reputation (nodes s' node) > 20
                                                   then ni_reputation (nodes s' node) - 20 else 0) \<rparr>),
                           fl_log := fl_log s' @
                             [NodeSlashed node (mu_stake (tr_updates (trainingRounds s (currentRound s)) node))
                                ''Invalid model update''] \<rparr>)
              else Inl (MissingRole (msg_sender e2) VALIDATOR_ROLE))"
  using assms
  unfolding validateModelUpdate_def Let_def
  by (auto split: if_splits sum.splits)


subsection \<open>Reward distribution\<close>

lemma count_valid_result:
  "i \<le> n \<Longrightarrow> n \<le> MAX_UINT256 \<Longrightarrow> v \<le> i \<Longrightarrow> count_valid i n v = Inr (v + (n - i))"
proof (induction i n v rule: count_valid.induct)
  case (1 i n v)
  show ?case
  proof (cases "i < n")
    case True
    with "1.prems" have c: "checked_add v 1 = Inr (v + 1)" "i + 1 \<le> MAX_UINT256"
      by (simp_all add: checked_add_def)
    from "1.IH"[OF True c(1) c(2)] True "1.prems"
    have "count_valid (i + 1) n (v + 1) = Inr (v + 1 + (n - (i + 1)))" by simp
    with True c show ?thesis
      by (subst count_valid.simps) simp
  next
    case False
    with "1.prems" show ?thesis by (subst count_valid.simps) simp
  qed
qed

lemma distributeRewards_frame:
  assumes "distributeRewards s rid = Inr s'"
  shows "s' = s \<or> s' = s\<lparr> fl_log := fl_log s @ [RewardsDistributed rid (tr_rewardPool (trainingRounds s rid))] \<rparr>"
  using assms
  unfolding distributeRewards_def Let_def
  by (auto split: if_splits sum.splits)

lemma distributeRewards_returns:
  assumes "tr_currentParticipants (trainingRounds s rid) \<le> MAX_UINT256"
  shows "\<exists>s'. distributeRewards s rid = Inr s'"
  using count_valid_result[of 0 "tr_currentParticipants (trainingRounds s rid)" 0] assms
  unfolding distributeRewards_def Let_def checked_div_def
  by auto

text \<open>
  Whatever round is aggregated, no node record changes (so no node's \<^verbatim>\<open>totalRewards\<close>
  does), the coordinator's balance stays, and none of the entries added to the log is a
  call to the reward token or a transfer of ether.
\<close>

lemma aggregateModel_pays_nobody:
  assumes "aggregateModel e s rid h acc = Inr s'"
  shows "nodes s' = nodes s \<and> fl_balance s' = fl_balance s
       \<and> (\<exists>added. fl_log s' = fl_log s @ added \<and> (\<forall>c. CoordinatorCall c \<notin> set added))"
proof -
  let ?round = "trainingRounds s rid"
  let ?published = "(models s)(rid :=
                \<lparr> am_modelHash = h, am_round = rid,
                  am_timestamp = block_timestamp e, am_aggregator = msg_sender e,
                  am_participantCount = tr_currentParticipants ?round, am_isActive = True,
                  am_accuracy = acc \<rparr>)"
  let ?s1 = "s\<lparr> models := (if rid > 1
                                 then ?published(rid - 1 :=
                                        (?published (rid - 1))\<lparr> am_isActive := False \<rparr>)
                                 else ?published),
                     trainingRounds := (trainingRounds s)(rid := ?round\<lparr> tr_isActive := False \<rparr>),
                     fl_log := fl_log s @
                        [ModelAggregated rid h (msg_sender e) (tr_currentParticipants ?round),
                         TrainingRoundEnded rid (tr_currentParticipants ?round) h] \<rparr>"
  from assms obtain s2 where
    d: "distributeRewards ?s1 rid = Inr s2"
    and s': "s' = s2\<lparr> currentRound := currentRound s2 + 1, totalRounds := totalRounds s2 + 1 \<rparr>"
    unfolding aggregateModel_def Let_def checked_add_def
    by (auto split: if_splits sum.splits)
  from distributeRewards_frame[OF d] show ?thesis
    by (auto simp: s')
qed

text \<open>
  C9 on the code. Round 1 holds a reward pool of 100 and one participant, node 4.
  Aggregating it returns and records one participant; the log gains the two
  aggregation events and \<^verbatim>\<open>RewardsDistributed(1, 100)\<close> and nothing else, so no
  transfer is made; node 4's \<^verbatim>\<open>totalRewards\<close> stays 0 and the coordinator's balance
  is unchanged.
\<close>

theorem aggregateModel_no_payout:
  "tr_rewardPool (trainingRounds (round_with_update 1) 1) = 100
   \<and> tr_participants (trainingRounds (round_with_update 1) 1) 4
   \<and> (case aggregateModel (call_env 1 0 2000) (round_with_update 1) 1 99 9000 of
         Inl err \<Rightarrow> False
       | Inr s' \<Rightarrow>
           am_participantCount (models s' 1) = 1
           \<and> fl_log s' = fl_log (round_with_update 1) @
               [ModelAggregated 1 99 1 1, TrainingRoundEnded 1 1 99, RewardsDistributed 1 100]
           \<and> ni_totalRewards (nodes s' 4) = 0
           \<and> nodes s' = nodes (round_with_update 1)
           \<and> fl_balance s' = fl_balance (round_with_update 1))"
  by (simp add: coordinator_eval count_valid.simps)


subsection \<open>Aggregation: quorum, deadline and the single active model\<close>

lemma coordinator_inv_init: "coordinator_inv (coordinator_init d t m r)"
  by (simp add: coordinator_inv_def coordinator_init_def)

lemma inv_from_frame:
  assumes inv: "coordinator_inv s" and k: "keeps_rounds s s'"
  shows "coordinator_inv s'"
  unfolding coordinator_inv_def
proof (intro conjI allI impI)
  show "1 \<le> currentRound s'" using inv k by (simp add: coordinator_inv_def keeps_rounds_def)
  show "currentRound s' = totalRounds s' + 1"
    using inv k by (simp add: coordinator_inv_def keeps_rounds_def)
next
  fix j assume "am_isActive (models s' j)"
  then have "am_isActive (models s j)" using k by (simp add: keeps_rounds_def)
  with inv have "1 \<le> j \<and> j + 1 = currentRound s" by (simp add: coordinator_inv_def)
  then show "1 \<le> j" "j + 1 = currentRound s'" using k by (simp_all add: keeps_rounds_def)
next
  fix j assume a: "tr_isActive (trainingRounds s' j)"
  have "j = currentRound s"
  proof (rule ccontr)
    assume "j \<noteq> currentRound s"
    with k a have "tr_isActive (trainingRounds s j)" by (simp add: keeps_rounds_def)
    with inv \<open>j \<noteq> currentRound s\<close> show False by (auto simp: coordinator_inv_def)
  qed
  then show "j = currentRound s'" using k by (simp add: keeps_rounds_def)
next
  fix j
  from inv have b: "\<And>i. tr_currentParticipants (trainingRounds s i) \<le> MAX_UINT256"
    by (simp add: coordinator_inv_def)
  show "tr_currentParticipants (trainingRounds s' j) \<le> MAX_UINT256"
  proof (cases "j = currentRound s")
    case True
    with k b show ?thesis by (simp add: keeps_rounds_def)
  next
    case False
    with k b[of j] show ?thesis by (simp add: keeps_rounds_def)
  qed
qed

lemma keeps_registerNode: "registerNode e s = Inr s' \<Longrightarrow> keeps_rounds s s'"
  unfolding registerNode_def keeps_rounds_def
  by (auto split: if_splits)

lemma keeps_startTrainingRound:
  "startTrainingRound self e s d lo hi pool = Inr s' \<Longrightarrow> keeps_rounds s s'"
  unfolding startTrainingRound_def keeps_rounds_def
  by (auto split: if_splits sum.splits)

lemma keeps_submitModelUpdate: "submitModelUpdate e s h g = Inr s' \<Longrightarrow> keeps_rounds s s'"
  unfolding submitModelUpdate_def keeps_rounds_def Let_def checked_add_def
  by (auto split: if_splits sum.splits)

lemma keeps_validateModelUpdate: "validateModelUpdate e s n v = Inr s' \<Longrightarrow> keeps_rounds s s'"
  unfolding validateModelUpdate_def keeps_rounds_def Let_def
  by (auto split: if_splits sum.splits)

lemma keeps_admin:
  "emergencyWithdraw e s = Inr s' \<Longrightarrow> keeps_rounds s s'"
  "updateMinStakeAmount e s n = Inr s' \<Longrightarrow> keeps_rounds s s'"
  "updateRewardPerParticipant e s n = Inr s' \<Longrightarrow> keeps_rounds s s'"
  "fl_grantRole e s r a = Inr s' \<Longrightarrow> keeps_rounds s s'"
  "fl_revokeRole e s r a = Inr s' \<Longrightarrow> keeps_rounds s s'"
  "fl_renounceRole e s r a = Inr s' \<Longrightarrow> keeps_rounds s s'"
  unfolding emergencyWithdraw_def updateMinStakeAmount_def updateRewardPerParticipant_def
    fl_grantRole_def fl_revokeRole_def fl_renounceRole_def keeps_rounds_def
  by (auto split: if_splits)

text \<open>The state a returning aggregation leaves, spelled out.\<close>

lemma aggregateModel_result:
  assumes "aggregateModel e s rid h acc = Inr s'"
  shows "tr_isActive (trainingRounds s rid)
       \<and> currentRound s' = currentRound s + 1 \<and> totalRounds s' = totalRounds s + 1
       \<and> trainingRounds s' = (trainingRounds s)(rid := (trainingRounds s rid)\<lparr> tr_isActive := False \<rparr>)
       \<and> am_isActive (models s' rid) \<and> am_modelHash (models s' rid) = h
       \<and> am_participantCount (models s' rid) = tr_currentParticipants (trainingRounds s rid)
       \<and> (1 < rid \<longrightarrow> \<not> am_isActive (models s' (rid - 1)))
       \<and> (\<forall>k. k \<noteq> rid \<and> k + 1 \<noteq> rid \<longrightarrow> models s' k = models s k)
       \<and> (\<forall>k. k \<noteq> rid \<and> am_isActive (models s' k) \<longrightarrow> am_isActive (models s k))"
proof -
  let ?round = "trainingRounds s rid"
  let ?published = "(models s)(rid :=
                \<lparr> am_modelHash = h, am_round = rid,
                  am_timestamp = block_timestamp e, am_aggregator = msg_sender e,
                  am_participantCount = tr_currentParticipants ?round, am_isActive = True,
                  am_accuracy = acc \<rparr>)"
  let ?s1 = "s\<lparr> models := (if rid > 1
                                 then ?published(rid - 1 :=
                                        (?published (rid - 1))\<lparr> am_isActive := False \<rparr>)
                                 else ?published),
                     trainingRounds := (trainingRounds s)(rid := ?round\<lparr> tr_isActive := False \<rparr>),
                     fl_log := fl_log s @
                        [ModelAggregated rid h (msg_sender e) (tr_currentParticipants ?round),
                         TrainingRoundEnded rid (tr_currentParticipants ?round) h] \<rparr>"
  from assms have act: "tr_isActive ?round"
    unfolding aggregateModel_def Let_def by (auto split: if_splits)
  from assms obtain s2 where
    d: "distributeRewards ?s1 rid = Inr s2"
    and s': "s' = s2\<lparr> currentRound := currentRound s2 + 1, totalRounds := totalRounds s2 + 1 \<rparr>"
    unfolding aggregateModel_def Let_def checked_add_def
    by (auto split: if_splits sum.splits)
  from distributeRewards_frame[OF d] have
    m: "models s2 = models ?s1" and t: "trainingRounds s2 = trainingRounds ?s1"
    and c: "currentRound s2 = currentRound s" "totalRounds s2 = totalRounds s"
    by auto
  have ms: "models s' = (if rid > 1
                         then ?published(rid - 1 := (?published (rid - 1))\<lparr> am_isActive := False \<rparr>)
                         else ?published)"
    using m by (simp add: s')
  have ts: "trainingRounds s' = (trainingRounds s)(rid := ?round\<lparr> tr_isActive := False \<rparr>)"
    using t by (simp add: s')
  show ?thesis
  proof (cases "rid > 1")
    case True
    with ms have "models s' = ?published(rid - 1 := (?published (rid - 1))\<lparr> am_isActive := False \<rparr>)"
      by simp
    with True act ts c show ?thesis by (auto simp: s')
  next
    case False
    with ms have "models s' = ?published" by simp
    with False act ts c show ?thesis by (auto simp: s')
  qed
qed


lemma inv_aggregateModel:
  assumes inv: "coordinator_inv s" and a: "aggregateModel e s rid h acc = Inr s'"
  shows "coordinator_inv s'"
proof -
  note r = aggregateModel_result[OF a]
  from inv r have rid: "rid = currentRound s" by (auto simp: coordinator_inv_def)
  show ?thesis
    unfolding coordinator_inv_def
  proof (intro conjI allI impI)
    from r have c: "currentRound s' = currentRound s + 1" "totalRounds s' = totalRounds s + 1"
      by simp_all
    from inv have "currentRound s = totalRounds s + 1" by (simp add: coordinator_inv_def)
    with c show "1 \<le> currentRound s'" "currentRound s' = totalRounds s' + 1" by simp_all
  next
    fix k assume k: "am_isActive (models s' k)"
    have "k = rid"
    proof (rule ccontr)
      assume ne: "k \<noteq> rid"
      with r k have "am_isActive (models s k)" by blast
      with inv have k1: "1 \<le> k" "k + 1 = currentRound s" by (auto simp: coordinator_inv_def)
      with rid have "1 < rid" "k = rid - 1" by simp_all
      with r k show False by simp
    qed
    then have kc: "k = currentRound s" using rid by simp
    from inv have "1 \<le> currentRound s" by (simp add: coordinator_inv_def)
    then show "1 \<le> k" unfolding kc .
    from r have "currentRound s' = currentRound s + 1" by simp
    then show "k + 1 = currentRound s'" unfolding kc by simp
  next
    fix k assume a': "tr_isActive (trainingRounds s' k)"
    from r have t: "trainingRounds s' = (trainingRounds s)(rid := (trainingRounds s rid)\<lparr> tr_isActive := False \<rparr>)"
      by simp
    from a' have "k \<noteq> rid \<and> tr_isActive (trainingRounds s k)"
      unfolding t by (cases "k = rid") simp_all
    with inv rid have False by (auto simp: coordinator_inv_def)
    then show "k = currentRound s'" ..
  next
    fix k
    from r have t: "trainingRounds s' = (trainingRounds s)(rid := (trainingRounds s rid)\<lparr> tr_isActive := False \<rparr>)"
      by simp
    from inv have "\<And>i. tr_currentParticipants (trainingRounds s i) \<le> MAX_UINT256"
      by (simp add: coordinator_inv_def)
    from this[of k] this[of rid] show "tr_currentParticipants (trainingRounds s' k) \<le> MAX_UINT256"
      unfolding t by (cases "k = rid") simp_all
  qed
qed

lemma coordinator_exec_inv:
  assumes "coordinator_inv s" "coordinator_exec self e s c = Inr s'"
  shows "coordinator_inv s'"
proof (cases c)
  case (AggregateModel r h a)
  with assms show ?thesis using inv_aggregateModel[of s e r h a s'] by simp
next
  case RegisterNode
  with assms(2) have "keeps_rounds s s'" by (simp add: keeps_registerNode)
  with assms(1) show ?thesis by (rule inv_from_frame)
next
  case (StartTrainingRound d lo hi pool)
  with assms(2) have "keeps_rounds s s'" by (simp add: keeps_startTrainingRound)
  with assms(1) show ?thesis by (rule inv_from_frame)
next
  case (SubmitModelUpdate h g)
  with assms(2) have "keeps_rounds s s'" by (simp add: keeps_submitModelUpdate)
  with assms(1) show ?thesis by (rule inv_from_frame)
next
  case (ValidateModelUpdate n v)
  with assms(2) have "keeps_rounds s s'" by (simp add: keeps_validateModelUpdate)
  with assms(1) show ?thesis by (rule inv_from_frame)
next
  case EmergencyWithdraw
  with assms(2) have "keeps_rounds s s'" by (simp add: keeps_admin)
  with assms(1) show ?thesis by (rule inv_from_frame)
next
  case (UpdateMinStakeAmount n)
  with assms(2) have "keeps_rounds s s'" by (simp add: keeps_admin)
  with assms(1) show ?thesis by (rule inv_from_frame)
next
  case (UpdateRewardPerParticipant n)
  with assms(2) have "keeps_rounds s s'" by (simp add: keeps_admin)
  with assms(1) show ?thesis by (rule inv_from_frame)
next
  case (CoordinatorGrantRole r a)
  with assms(2) have "keeps_rounds s s'" by (simp add: keeps_admin)
  with assms(1) show ?thesis by (rule inv_from_frame)
next
  case (CoordinatorRevokeRole r a)
  with assms(2) have "keeps_rounds s s'" by (simp add: keeps_admin)
  with assms(1) show ?thesis by (rule inv_from_frame)
next
  case (CoordinatorRenounceRole r a)
  with assms(2) have "keeps_rounds s s'" by (simp add: keeps_admin)
  with assms(1) show ?thesis by (rule inv_from_frame)
qed

lemma reachable_inv: "coordinator_reachable self s \<Longrightarrow> coordinator_inv s"
proof (induction rule: coordinator_reachable.induct)
  case (deployed deployer token minStake reward)
  show ?case by (rule coordinator_inv_init)
next
  case (transaction s e c s')
  then show ?case using coordinator_exec_inv by blast
qed

lemma coordinator_run_reachable:
  "coordinator_reachable self s \<Longrightarrow> coordinator_reachable self (coordinator_run self s txs)"
proof (induction txs arbitrary: s)
  case Nil
  then show ?case by simp
next
  case (Cons tx txs)
  obtain e c where tx: "tx = (e, c)" by (cases tx)
  have "coordinator_reachable self (ledger_after s (coordinator_exec self e s c))"
    using Cons.prems
    by (auto simp: ledger_after_def split: sum.splits intro: coordinator_reachable.transaction)
  with Cons.IH tx show ?case by simp
qed

lemma aggregateModel_returns:
  assumes inv: "coordinator_inv s"
    and pre: "msg_value e = 0"
      "fl_roles s AGGREGATOR_ROLE (msg_sender e)" "tr_isActive (trainingRounds s rid)"
      "tr_endTime (trainingRounds s rid) < block_timestamp e"
      "tr_minParticipants (trainingRounds s rid) \<le> tr_currentParticipants (trainingRounds s rid)"
      "h \<noteq> 0" "acc \<le> 10000" "currentRound s < MAX_UINT256"
  shows "\<exists>s'. aggregateModel e s rid h acc = Inr s'"
proof -
  let ?round = "trainingRounds s rid"
  let ?published = "(models s)(rid :=
                \<lparr> am_modelHash = h, am_round = rid,
                  am_timestamp = block_timestamp e, am_aggregator = msg_sender e,
                  am_participantCount = tr_currentParticipants ?round, am_isActive = True,
                  am_accuracy = acc \<rparr>)"
  let ?s1 = "s\<lparr> models := (if rid > 1
                                 then ?published(rid - 1 :=
                                        (?published (rid - 1))\<lparr> am_isActive := False \<rparr>)
                                 else ?published),
                     trainingRounds := (trainingRounds s)(rid := ?round\<lparr> tr_isActive := False \<rparr>),
                     fl_log := fl_log s @
                        [ModelAggregated rid h (msg_sender e) (tr_currentParticipants ?round),
                         TrainingRoundEnded rid (tr_currentParticipants ?round) h] \<rparr>"
  from inv have "tr_currentParticipants (trainingRounds ?s1 rid) \<le> MAX_UINT256"
    by (simp add: coordinator_inv_def)
  from distributeRewards_returns[OF this] obtain s2 where d: "distributeRewards ?s1 rid = Inr s2" ..
  from distributeRewards_frame[OF d] have c: "currentRound s2 = currentRound s" "totalRounds s2 = totalRounds s"
    by auto
  from inv pre c have "currentRound s2 + 1 \<le> MAX_UINT256" "totalRounds s2 + 1 \<le> MAX_UINT256"
    by (simp_all add: coordinator_inv_def)
  with pre d show ?thesis
    unfolding aggregateModel_def Let_def checked_add_def
    by (auto simp: Let_def)
qed


text \<open>
  C5. In every state the coordinator reaches: \<^verbatim>\<open>aggregateModel\<close> aborts while the
  round's end time has not passed, and aborts when the round has fewer participants
  than its minimum. With exactly the minimum (the caller an aggregator whose call
  carries no ether, the function not being payable; the round still active and past
  its end time, a nonzero model hash, an accuracy of at most 10000, and the round
  counter below its maximum) it returns: the new model is
  published active, every other model is then inactive, the round is closed and the
  round counter advances. And in every reachable state at most one aggregated model is
  active.
\<close>

theorem aggregateModel_quorum_single_active:
  "coordinator_reachable self s \<longrightarrow>
     (block_timestamp e \<le> tr_endTime (trainingRounds s rid)
        \<longrightarrow> (\<exists>err. aggregateModel e s rid h acc = Inl err))
     \<and> (tr_currentParticipants (trainingRounds s rid) < tr_minParticipants (trainingRounds s rid)
        \<longrightarrow> (\<exists>err. aggregateModel e s rid h acc = Inl err))
     \<and> (msg_value e = 0 \<and> fl_roles s AGGREGATOR_ROLE (msg_sender e) \<and> tr_isActive (trainingRounds s rid)
          \<and> tr_endTime (trainingRounds s rid) < block_timestamp e
          \<and> tr_currentParticipants (trainingRounds s rid) = tr_minParticipants (trainingRounds s rid)
          \<and> h \<noteq> 0 \<and> acc \<le> 10000 \<and> currentRound s < MAX_UINT256
        \<longrightarrow> (\<exists>s'. aggregateModel e s rid h acc = Inr s'
                 \<and> am_isActive (models s' rid) \<and> am_modelHash (models s' rid) = h
                 \<and> (\<forall>k. k \<noteq> rid \<longrightarrow> \<not> am_isActive (models s' k))
                 \<and> \<not> tr_isActive (trainingRounds s' rid)
                 \<and> currentRound s' = currentRound s + 1))
     \<and> (\<forall>j k. am_isActive (models s j) \<and> am_isActive (models s k) \<longrightarrow> j = k)"
proof (intro impI conjI allI)
  assume "block_timestamp e \<le> tr_endTime (trainingRounds s rid)"
  then show "\<exists>err. aggregateModel e s rid h acc = Inl err"
    unfolding aggregateModel_def Let_def by auto
next
  assume "tr_currentParticipants (trainingRounds s rid) < tr_minParticipants (trainingRounds s rid)"
  then show "\<exists>err. aggregateModel e s rid h acc = Inl err"
    unfolding aggregateModel_def Let_def by auto
next
  assume reach: "coordinator_reachable self s"
    and pre: "msg_value e = 0 \<and> fl_roles s AGGREGATOR_ROLE (msg_sender e) \<and> tr_isActive (trainingRounds s rid)
          \<and> tr_endTime (trainingRounds s rid) < block_timestamp e
          \<and> tr_currentParticipants (trainingRounds s rid) = tr_minParticipants (trainingRounds s rid)
          \<and> h \<noteq> 0 \<and> acc \<le> 10000 \<and> currentRound s < MAX_UINT256"
  note inv = reachable_inv[OF reach]
  from aggregateModel_returns[OF inv, of e rid h acc] pre
  obtain s' where a: "aggregateModel e s rid h acc = Inr s'" by auto
  note r = aggregateModel_result[OF a]
  note inv' = inv_aggregateModel[OF inv a]
  from inv r have rid: "rid = currentRound s" by (auto simp: coordinator_inv_def)
  have only: "\<forall>k. k \<noteq> rid \<longrightarrow> \<not> am_isActive (models s' k)"
  proof (intro allI impI notI)
    fix k assume "k \<noteq> rid" "am_isActive (models s' k)"
    with inv' r rid show False by (auto simp: coordinator_inv_def)
  qed
  from a r only show "\<exists>s'. aggregateModel e s rid h acc = Inr s'
                 \<and> am_isActive (models s' rid) \<and> am_modelHash (models s' rid) = h
                 \<and> (\<forall>k. k \<noteq> rid \<longrightarrow> \<not> am_isActive (models s' k))
                 \<and> \<not> tr_isActive (trainingRounds s' rid)
                 \<and> currentRound s' = currentRound s + 1"
    by auto
next
  fix j k
  assume reach: "coordinator_reachable self s"
    and jk: "am_isActive (models s j) \<and> am_isActive (models s k)"
  from reachable_inv[OF reach]
  have "\<And>i. am_isActive (models s i) \<Longrightarrow> i + 1 = currentRound s"
    by (simp add: coordinator_inv_def)
  from this[of j] this[of k] jk show "j = k" by simp
qed

text \<open>
  The theorem at work. Round 1 of \<open>round_with_update 1\<close> cannot be aggregated at its
  end time 1120, and round 1 of \<open>round_with_update 2\<close> cannot be aggregated with one
  participant against a quorum of two. In \<open>second_round\<close> the model of round 1 is the
  active one and round 2 has exactly its quorum: aggregating round 2 after its end
  publishes model 2 and deactivates model 1.
\<close>

theorem aggregateModel_quorum_single_active_witness:
  "coordinator_reachable 20 (round_with_update 1)
   \<and> (\<exists>err. aggregateModel (call_env 1 0 1120) (round_with_update 1) 1 99 9000 = Inl err)
   \<and> coordinator_reachable 20 (round_with_update 2)
   \<and> tr_currentParticipants (trainingRounds (round_with_update 2) 1) = 1
   \<and> tr_minParticipants (trainingRounds (round_with_update 2) 1) = 2
   \<and> (\<exists>err. aggregateModel (call_env 1 0 2000) (round_with_update 2) 1 99 9000 = Inl err)
   \<and> tr_currentParticipants (trainingRounds (round_with_update 1) 1)
       = tr_minParticipants (trainingRounds (round_with_update 1) 1)
   \<and> (\<exists>s'. aggregateModel (call_env 1 0 2000) (round_with_update 1) 1 99 9000 = Inr s'
          \<and> am_isActive (models s' 1) \<and> (\<forall>k. k \<noteq> 1 \<longrightarrow> \<not> am_isActive (models s' k))
          \<and> currentRound s' = 2)
   \<and> coordinator_reachable 20 second_round
   \<and> am_isActive (models second_round 1)
   \<and> tr_currentParticipants (trainingRounds second_round 2)
       = tr_minParticipants (trainingRounds second_round 2)
   \<and> (\<exists>s'. aggregateModel (call_env 1 0 4000) second_round 2 77 9500 = Inr s'
          \<and> am_isActive (models s' 2) \<and> \<not> am_isActive (models s' 1)
          \<and> (\<forall>k. k \<noteq> 2 \<longrightarrow> \<not> am_isActive (models s' k))
          \<and> currentRound s' = 3)"
proof -
  have init: "coordinator_reachable 20 (coordinator_init 1 50 10 5)"
    by (rule coordinator_reachable.deployed)
  have r1: "coordinator_reachable 20 (round_with_update 1)"
    and r2: "coordinator_reachable 20 (round_with_update 2)"
    unfolding round_with_update_def by (rule coordinator_run_reachable[OF init])+
  have r3: "coordinator_reachable 20 second_round"
    unfolding second_round_def by (rule coordinator_run_reachable[OF r1])
  have f1: "tr_endTime (trainingRounds (round_with_update 1) 1) = 1120"
    "tr_currentParticipants (trainingRounds (round_with_update 1) 1) = 1"
    "tr_minParticipants (trainingRounds (round_with_update 1) 1) = 1"
    "tr_isActive (trainingRounds (round_with_update 1) 1)"
    "fl_roles (round_with_update 1) AGGREGATOR_ROLE 1"
    "currentRound (round_with_update 1) = 1"
    by (simp_all add: coordinator_eval)
  have f2: "tr_currentParticipants (trainingRounds (round_with_update 2) 1) = 1"
    "tr_minParticipants (trainingRounds (round_with_update 2) 1) = 2"
    by (simp_all add: coordinator_eval)
  have f3: "tr_endTime (trainingRounds second_round 2) = 3100"
    "tr_currentParticipants (trainingRounds second_round 2) = 1"
    "tr_minParticipants (trainingRounds second_round 2) = 1"
    "tr_isActive (trainingRounds second_round 2)"
    "fl_roles second_round AGGREGATOR_ROLE 1"
    "currentRound second_round = 2"
    "am_isActive (models second_round 1)"
    by (simp_all add: second_round_def coordinator_eval count_valid.simps)
  have e: "msg_sender (call_env 1 0 2000) = 1" "block_timestamp (call_env 1 0 2000) = 2000"
    "msg_value (call_env 1 0 2000) = 0"
    "block_timestamp (call_env 1 0 1120) = 1120"
    "msg_sender (call_env 1 0 4000) = 1" "block_timestamp (call_env 1 0 4000) = 4000"
    "msg_value (call_env 1 0 4000) = 0"
    by (simp_all add: call_env_def)
  have big: "(1::nat) < MAX_UINT256" "(2::nat) < MAX_UINT256" by (simp_all add: MAX_UINT256_def)
  note early = aggregateModel_quorum_single_active[of 20 "round_with_update 1" "call_env 1 0 1120" 1 99 9000]
  note short = aggregateModel_quorum_single_active[of 20 "round_with_update 2" "call_env 1 0 2000" 1 99 9000]
  note exact = aggregateModel_quorum_single_active[of 20 "round_with_update 1" "call_env 1 0 2000" 1 99 9000]
  note again = aggregateModel_quorum_single_active[of 20 second_round "call_env 1 0 4000" 2 77 9500]
  from early r1 f1 e have a: "\<exists>err. aggregateModel (call_env 1 0 1120) (round_with_update 1) 1 99 9000 = Inl err"
    by simp
  from short r2 f2 have b: "\<exists>err. aggregateModel (call_env 1 0 2000) (round_with_update 2) 1 99 9000 = Inl err"
    by simp
  from exact r1 f1 e big have c: "\<exists>s'. aggregateModel (call_env 1 0 2000) (round_with_update 1) 1 99 9000 = Inr s'
          \<and> am_isActive (models s' 1) \<and> (\<forall>k. k \<noteq> 1 \<longrightarrow> \<not> am_isActive (models s' k))
          \<and> currentRound s' = 2"
    by auto
  from again r3 f3 e big have d0: "\<exists>s'. aggregateModel (call_env 1 0 4000) second_round 2 77 9500 = Inr s'
          \<and> am_isActive (models s' 2) \<and> (\<forall>k. k \<noteq> 2 \<longrightarrow> \<not> am_isActive (models s' k))
          \<and> currentRound s' = 3"
    by auto
  then have d: "\<exists>s'. aggregateModel (call_env 1 0 4000) second_round 2 77 9500 = Inr s'
          \<and> am_isActive (models s' 2) \<and> \<not> am_isActive (models s' 1)
          \<and> (\<forall>k. k \<noteq> 2 \<longrightarrow> \<not> am_isActive (models s' k))
          \<and> currentRound s' = 3"
    by auto
  from r1 r2 r3 a b c d f1 f2 f3 show ?thesis by simp
qed

end
